theory Spec2Isabelle
  imports Complex_Main
begin

section \<open>Tensors\<close>

text \<open>
  The file \<^verbatim>\<open>model/fast_r2d2_downstream.py\<close> is glue code over torch tensors. A
  tensor is modelled as torch stores a contiguous one: a shape and the elements in
  row-major order. Floating-point entries are idealised as real numbers.
\<close>

record 'a tensor =
  shape :: "nat list"
  elems :: "'a list"

definition wf_tensor :: "'a tensor \<Rightarrow> bool" where
  "wf_tensor t \<longleftrightarrow> length (elems t) = prod_list (shape t)"

text \<open>Row-major offset of a multi-index, and the entry read at it.\<close>

fun offset :: "nat list \<Rightarrow> nat list \<Rightarrow> nat" where
  "offset (d # ds) (i # is) = i * prod_list ds + offset ds is"
| "offset _ _ = 0"

definition entry :: "'a tensor \<Rightarrow> nat list \<Rightarrow> 'a" where
  "entry t idx = elems t ! offset (shape t) idx"

text \<open>
  The errors of a call: the \<^verbatim>\<open>Exception\<close> raised by the file itself, with its
  message, and the errors of the torch and Python operations the file applies
  (a shape that does not fit, an index out of range, a missing key).
\<close>

datatype error = Exception string | RuntimeError | IndexError | KeyError string

definition bindE :: "error + 'a \<Rightarrow> ('a \<Rightarrow> error + 'b) \<Rightarrow> error + 'b" where
  "bindE r f = (case r of Inl e \<Rightarrow> Inl e | Inr x \<Rightarrow> f x)"

text \<open>\<^verbatim>\<open>t.shape[i]\<close>, with Python's negative indices.\<close>

definition shape_at :: "'a tensor \<Rightarrow> int \<Rightarrow> error + nat" where
  "shape_at t i =
     (let n = int (length (shape t)); j = (if i < 0 then n + i else i)
      in if 0 \<le> j \<and> j < n then Inr (shape t ! nat j) else Inl IndexError)"

text \<open>
  \<^verbatim>\<open>t.view(*ds)\<close> on a contiguous tensor: the storage is kept and only the shape
  changes. One entry of \<open>ds\<close> may be \<open>-1\<close> and is inferred from the number of
  elements; torch refuses a size that does not fit and a \<open>-1\<close> beside a zero
  dimension. Torch also refuses a tensor whose memory layout (its strides) does not
  fit the new shape. The layout is not part of this model, so the model's \<open>view\<close>
  can succeed where torch raises on a non-contiguous tensor; a statement about the
  result of a view therefore takes the success of the view as a premise. When a
  view succeeds in torch, it keeps the elements in their row-major order, as here.
\<close>

definition infer_size :: "int list \<Rightarrow> nat \<Rightarrow> error + nat list" where
  "infer_size ds n =
     (if list_ex (\<lambda>d. d < - 1) ds \<or> 1 < length (filter (\<lambda>d. d = - 1) ds) then Inl RuntimeError
      else
        let known = prod_list (map nat (filter (\<lambda>d. d \<noteq> - 1) ds))
        in if list_ex (\<lambda>d. d = - 1) ds
           then (if known = 0 \<or> n mod known \<noteq> 0 then Inl RuntimeError
                 else Inr (map (\<lambda>d. if d = - 1 then n div known else nat d) ds))
           else (if known = n then Inr (map nat ds) else Inl RuntimeError))"

definition view :: "'a tensor \<Rightarrow> int list \<Rightarrow> error + 'a tensor" where
  "view t ds = bindE (infer_size ds (prod_list (shape t))) (\<lambda>s. Inr (t\<lparr>shape := s\<rparr>))"

text \<open>\<^verbatim>\<open>torch.zeros([sz], dtype=torch.long).fill_(v)\<close>.\<close>

definition zeros_fill :: "nat \<Rightarrow> int \<Rightarrow> int tensor" where
  "zeros_fill sz v = \<lparr>shape = [sz], elems = replicate sz v\<rparr>"

text \<open>\<^verbatim>\<open>t.unsqueeze(d)\<close> for a dimension \<open>d \<ge> 0\<close>.\<close>

definition unsqueeze :: "'a tensor \<Rightarrow> nat \<Rightarrow> error + 'a tensor" where
  "unsqueeze t d =
     (if d \<le> length (shape t)
      then Inr (t\<lparr>shape := take d (shape t) @ [1] @ drop d (shape t)\<rparr>)
      else Inl IndexError)"

text \<open>
  The block of a tensor under index \<open>i\<close> of its first dimension, when each such block
  holds \<open>w\<close> elements.
\<close>

definition block :: "'a tensor \<Rightarrow> nat \<Rightarrow> nat \<Rightarrow> 'a list" where
  "block t w i = take w (drop (i * w) (elems t))"

text \<open>
  \<^verbatim>\<open>torch.cat([a, b], dim=1)\<close>. A one-dimensional empty operand is skipped (torch's
  legacy rule); otherwise both operands need the same rank, at least 2, and equal
  sizes outside dimension 1.
\<close>

definition cat_dim1 :: "'a tensor \<Rightarrow> 'a tensor \<Rightarrow> error + 'a tensor" where
  "cat_dim1 a b =
     (if shape a = [0] \<and> shape b = [0] then Inr a
      else if shape a = [0] then (if 2 \<le> length (shape b) then Inr b else Inl IndexError)
      else if shape b = [0] then (if 2 \<le> length (shape a) then Inr a else Inl IndexError)
      else
        (case shape a of
           n # p # ra \<Rightarrow>
             (case shape b of
                n' # q # rb \<Rightarrow>
                  if n = n' \<and> ra = rb
                  then Inr \<lparr>shape = n # (p + q) # ra,
                            elems = concat (map (\<lambda>i. block a (p * prod_list ra) i @
                                                       block b (q * prod_list ra) i) [0..<n])\<rparr>
                  else Inl RuntimeError
              | _ \<Rightarrow> Inl RuntimeError)
         | _ \<Rightarrow> Inl IndexError))"

text \<open>\<^verbatim>\<open>t[:, 0, :]\<close>: three indices need rank 3 at least, and index 0 a non-empty
  dimension 1.\<close>

definition select_dim1_0 :: "'a tensor \<Rightarrow> error + 'a tensor" where
  "select_dim1_0 t =
     (case shape t of
        n # p # d # rest \<Rightarrow>
          if p = 0 then Inl IndexError
          else Inr \<lparr>shape = n # d # rest,
                    elems = concat (map (\<lambda>i. take (prod_list (d # rest))
                                               (block t (p * prod_list (d # rest)) i)) [0..<n])\<rparr>
      | _ \<Rightarrow> Inl IndexError)"

text \<open>
  \<^verbatim>\<open>F.softmax(t, dim=-1)\<close>: the elements are cut into rows along the last dimension
  (a tensor of rank 0 is one row of one element) and each row is normalised. The
  entries are real numbers: the rounding of float32, and infinite or NaN logits, are
  outside this model, so it says which function is applied and along which
  dimension, not what the floating-point result is.
\<close>

fun chunks :: "nat \<Rightarrow> 'a list \<Rightarrow> 'a list list" where
  "chunks d xs = (if d = 0 \<or> xs = [] then [] else take d xs # chunks d (drop d xs))"

declare chunks.simps [simp del]

definition softmax_row :: "real list \<Rightarrow> real list" where
  "softmax_row xs = map (\<lambda>x. exp x / sum_list (map exp xs)) xs"

definition last_dim :: "'a tensor \<Rightarrow> nat" where
  "last_dim t = (if shape t = [] then 1 else last (shape t))"

definition rows :: "'a tensor \<Rightarrow> 'a list list" where
  "rows t = (if last_dim t = 0 then replicate (prod_list (butlast (shape t))) []
             else chunks (last_dim t) (elems t))"

definition softmax :: "real tensor \<Rightarrow> real tensor" where
  "softmax t = t\<lparr>elems := concat (map softmax_row (rows t))\<rparr>"

section \<open>Data model and collaborators\<close>

text \<open>
  A table of the encoder is read only through \<^verbatim>\<open>t.root.best_node.cache_id\<close>.
  (The field \<^verbatim>\<open>root\<close> is written \<open>root'\<close>: \<open>root\<close> is the n-th root of
  the real-number library.)
\<close>

record node =
  cache_id :: int

record cell =
  best_node :: node

record table =
  root' :: cell

text \<open>
  Modelled from the spec: the enum \<^verbatim>\<open>CacheSlots\<close> of \<^verbatim>\<open>r2d2_common\<close> is not in
  the file; it is a fixed set of named slots, of which only \<^verbatim>\<open>E_IJ\<close> is read.
\<close>

datatype CacheSlots = E_IJ | OTHER_SLOT nat

text \<open>
  Modelled from the spec: the tensor cache of \<^verbatim>\<open>r2d2_common\<close> is not in the file.
  It is a mapping from cache id to a fixed set of named vector slots, each slot of a
  fixed width.
\<close>

record tensor_cache =
  slot_dim :: "CacheSlots \<Rightarrow> nat"
  cells :: "int \<Rightarrow> (CacheSlots \<Rightarrow> real list) option"

text \<open>
  Modelled from the spec: the method \<^verbatim>\<open>gather\<close> of the tensor cache is not in the
  file. It is a batched read by an ordered list of ids and a list of slot names,
  returning one tensor per requested slot, stacked over the ids in input order.
  Every id passed to it must have been populated; an id that was not is an index
  error here.
\<close>

definition gather :: "tensor_cache \<Rightarrow> int list \<Rightarrow> CacheSlots list \<Rightarrow> error + real tensor list" where
  "gather c ids slots =
     (if list_all (\<lambda>i. cells c i \<noteq> None) ids
      then Inr (map (\<lambda>s. \<lparr>shape = [length ids, slot_dim c s],
                           elems = concat (map (\<lambda>i. the (cells c i) s) ids)\<rparr>) slots)
      else Inl IndexError)"

definition populated :: "tensor_cache \<Rightarrow> int list \<Rightarrow> bool" where
  "populated c ids \<longleftrightarrow>
     list_all (\<lambda>i. case cells c i of None \<Rightarrow> False
                   | Some f \<Rightarrow> length (f E_IJ) = slot_dim c E_IJ) ids"

text \<open>\<^verbatim>\<open>xs[0]\<close> on a Python list.\<close>

definition index0 :: "'a list \<Rightarrow> error + 'a" where
  "index0 xs = (case xs of [] \<Rightarrow> Inl IndexError | x # _ \<Rightarrow> Inr x)"

text \<open>
  The arguments \<^verbatim>\<open>atom_spans\<close> and \<^verbatim>\<open>labels\<close> default to \<^verbatim>\<open>None\<close>. A keyword
  argument of the encoder that a call site leaves out is \<open>None\<close> in the record of the
  call: the encoder's own default applies, and the encoder is not in the file.
\<close>

type_synonym atom_spans = "int list list list"

record sampled_trees =
  split_masks :: "int tensor"
  split_points :: "int tensor"

record results =
  res_tables :: "table list"
  res_tensor_cache :: tensor_cache
  res_loss :: real
  res_sampled_trees :: "sampled_trees option"

record r2d2_args =
  arg_input_ids :: "int tensor"
  arg_attention_mask :: "int tensor"
  merge_trajectories :: "int tensor option"
  sample_trees :: "int option"
  recover_tree :: bool
  keep_tensor_cache :: bool
  lm_loss :: "bool option"

text \<open>
  The collaborators are not in the file and are parameters of the model: the encoder
  \<^verbatim>\<open>R2D2Cuda\<close> (its call, its embedding table and its tree decoder), the parser
  \<^verbatim>\<open>TopdownParser\<close> (called for merge guidance, and called with sampled splits for
  the KL loss), the classifier head, and the functions \<^verbatim>\<open>force_encode\<close> and
  \<^verbatim>\<open>F.cross_entropy\<close>. Each is a function of its arguments (dropout and the
  sampling of trees are not modelled as random); what it returns is not constrained.
  Scalar losses are real numbers.
\<close>

record R2D2Cuda =
  r2d2_call :: "r2d2_args \<Rightarrow> results"
  embedding :: "int tensor \<Rightarrow> real tensor"
  tree_decoder :: "real tensor \<Rightarrow> real tensor"

record TopdownParser =
  parse :: "int tensor \<Rightarrow> int tensor \<Rightarrow> atom_spans option \<Rightarrow> int tensor"
  parse_kl :: "int tensor \<Rightarrow> int tensor \<Rightarrow> int tensor \<Rightarrow> int tensor \<Rightarrow> real"

record externals =
  force_encode :: "TopdownParser \<Rightarrow> R2D2Cuda \<Rightarrow> int tensor \<Rightarrow> int tensor
                     \<Rightarrow> atom_spans option \<Rightarrow> real tensor"
  cross_entropy :: "real tensor \<Rightarrow> int tensor \<Rightarrow> real"

text \<open>
  The two modules. \<^verbatim>\<open>FastR2D2CrossSentence\<close> has the fields of
  \<^verbatim>\<open>FastR2D2Classification\<close> and \<^verbatim>\<open>task_id\<close>.
\<close>

record FastR2D2Classification =
  r2d2 :: R2D2Cuda
  parser :: TopdownParser
  classifier :: "real tensor \<Rightarrow> real tensor"
  disable_parser :: bool

record FastR2D2CrossSentence = FastR2D2Classification +
  task_id :: int

section \<open>Calls and their trace\<close>

text \<open>
  A run of \<^verbatim>\<open>forward\<close> yields an error or a value, and the list of the calls it
  made to the parser, the encoder and \<^verbatim>\<open>force_encode\<close>, in order.
\<close>

datatype event =
    ParserCall "int tensor" "int tensor" "atom_spans option"
  | ParserKLCall "int tensor" "int tensor" "int tensor" "int tensor"
  | R2D2Call r2d2_args
  | ForceEncodeCall "int tensor" "int tensor" "atom_spans option"

type_synonym 'a run = "(error + 'a) \<times> event list"

definition ret :: "'a \<Rightarrow> 'a run" where
  "ret x = (Inr x, [])"

definition raise :: "error \<Rightarrow> 'a run" where
  "raise e = (Inl e, [])"

definition lift :: "error + 'a \<Rightarrow> 'a run" where
  "lift r = (r, [])"

definition bnd :: "'a run \<Rightarrow> ('a \<Rightarrow> 'b run) \<Rightarrow> 'b run" where
  "bnd r f =
     (case fst r of
        Inl e \<Rightarrow> (Inl e, snd r)
      | Inr x \<Rightarrow> (fst (f x), snd r @ snd (f x)))"

definition call_parser ::
  "('z) FastR2D2Classification_scheme \<Rightarrow> int tensor \<Rightarrow> int tensor \<Rightarrow> atom_spans option
     \<Rightarrow> int tensor run" where
  "call_parser self input_ids attention_mask atom_spans =
     (Inr (parse (parser self) input_ids attention_mask atom_spans),
      [ParserCall input_ids attention_mask atom_spans])"

definition call_parser_kl ::
  "('z) FastR2D2Classification_scheme \<Rightarrow> int tensor \<Rightarrow> int tensor \<Rightarrow> int tensor \<Rightarrow> int tensor
     \<Rightarrow> real run" where
  "call_parser_kl self input_ids attention_mask masks points =
     (Inr (parse_kl (parser self) input_ids attention_mask masks points),
      [ParserKLCall input_ids attention_mask masks points])"

definition call_r2d2 :: "('z) FastR2D2Classification_scheme \<Rightarrow> r2d2_args \<Rightarrow> results run" where
  "call_r2d2 self args = (Inr (r2d2_call (r2d2 self) args), [R2D2Call args])"

definition call_force_encode ::
  "externals \<Rightarrow> ('z) FastR2D2Classification_scheme \<Rightarrow> int tensor \<Rightarrow> int tensor
     \<Rightarrow> atom_spans option \<Rightarrow> real tensor run" where
  "call_force_encode ext self input_ids attention_mask atom_spans =
     (Inr (force_encode ext (parser self) (r2d2 self) input_ids attention_mask atom_spans),
      [ForceEncodeCall input_ids attention_mask atom_spans])"

section \<open>Pooling\<close>

text \<open>
  The same four lines pool the tables in every branch that runs the encoder:
  \<^verbatim>\<open>
  root_cache_ids = []
  for t in tables:
      root_cache_ids.append(t.root.best_node.cache_id)
  e_ij = tensor_cache.gather(root_cache_ids, [CacheSlots.E_IJ])[0]
  \<close>
\<close>

fun append_root_cache_ids :: "table list \<Rightarrow> int list \<Rightarrow> int list" where
  "append_root_cache_ids [] root_cache_ids = root_cache_ids"
| "append_root_cache_ids (t # tables) root_cache_ids =
     append_root_cache_ids tables (root_cache_ids @ [cache_id (best_node (root' t))])"

definition root_pooling :: "table list \<Rightarrow> tensor_cache \<Rightarrow> error + real tensor" where
  "root_pooling tables tensor_cache =
     (let root_cache_ids = append_root_cache_ids tables []
      in bindE (gather tensor_cache root_cache_ids [E_IJ]) index0)"

text \<open>\<^verbatim>\<open>results['sampled_trees']\<close>: the encoder returns the key when it sampled trees.\<close>

definition get_sampled_trees :: "results \<Rightarrow> error + sampled_trees" where
  "get_sampled_trees results =
     (case res_sampled_trees results of
        None \<Rightarrow> Inl (KeyError ''sampled_trees'')
      | Some st \<Rightarrow> Inr st)"

datatype forward_output = Loss real | Probs "real tensor"

section \<open>FastR2D2Classification.forward\<close>

definition Classification_forward ::
  "externals \<Rightarrow> FastR2D2Classification \<Rightarrow> int tensor \<Rightarrow> int tensor \<Rightarrow> int
     \<Rightarrow> atom_spans option \<Rightarrow> int tensor option \<Rightarrow> bool \<Rightarrow> forward_output run" where
  "Classification_forward ext self input_ids attention_mask num_samples atom_spans labels
       force_encoding =
     (case labels of
        Some y \<Rightarrow>
          bnd (if \<not> disable_parser self
               then bnd (call_parser self input_ids attention_mask atom_spans) (\<lambda>s. ret (Some s))
               else ret None) (\<lambda>s_indices.
          bnd (call_r2d2 self
                 \<lparr>arg_input_ids = input_ids, arg_attention_mask = attention_mask,
                  merge_trajectories = s_indices, sample_trees = Some num_samples,
                  recover_tree = True, keep_tensor_cache = True, lm_loss = None\<rparr>) (\<lambda>results.
          bnd (lift (root_pooling (res_tables results) (res_tensor_cache results))) (\<lambda>e_ij.
          let logits = classifier self e_ij;
              loss = cross_entropy ext logits y;
              bilm_loss = res_loss results
          in
          bnd (if \<not> disable_parser self
               then bnd (lift (get_sampled_trees results)) (\<lambda>sampled_trees.
                      call_parser_kl self input_ids attention_mask
                        (split_masks sampled_trees) (split_points sampled_trees))
               else ret 0) (\<lambda>kl_loss.
          bnd (call_force_encode ext self input_ids attention_mask atom_spans) (\<lambda>e_ij.
          let logits = classifier self e_ij;
              force_encoding_loss = cross_entropy ext logits y
          in ret (Loss (force_encoding_loss + loss + kl_loss + bilm_loss)))))))
      | None \<Rightarrow>
          bnd (if \<not> force_encoding
               then
                 bnd (if \<not> disable_parser self
                      then bnd (call_parser self input_ids attention_mask atom_spans)
                             (\<lambda>s. ret (Some s))
                      else ret None) (\<lambda>s_indices.
                 bnd (call_r2d2 self
                        \<lparr>arg_input_ids = input_ids, arg_attention_mask = attention_mask,
                         merge_trajectories = s_indices, sample_trees = None,
                         recover_tree = True, keep_tensor_cache = True,
                         lm_loss = Some False\<rparr>) (\<lambda>results.
                 lift (root_pooling (res_tables results) (res_tensor_cache results))))
               else
                 bnd (if disable_parser self
                      then raise (Exception
                             ''Force encoding is not supported when disable_parser == True'')
                      else ret ()) (\<lambda>_.
                 call_force_encode ext self input_ids attention_mask atom_spans)) (\<lambda>e_ij.
          let logits = classifier self e_ij
          in ret (Probs (softmax logits))))"

section \<open>FastR2D2CrossSentence\<close>

text \<open>
  \<^verbatim>\<open>x.view(-1, x.shape[-1])\<close>, applied to \<^verbatim>\<open>input_ids\<close> and to
  \<^verbatim>\<open>attention_mask\<close>, and \<^verbatim>\<open>e_ij.view(e_ij.shape[0] // 2, 2, e_ij.shape[-1])\<close>.
\<close>

definition flatten_view :: "'a tensor \<Rightarrow> error + 'a tensor" where
  "flatten_view x = bindE (shape_at x (- 1)) (\<lambda>l. view x [- 1, int l])"

definition view_pairs :: "'a tensor \<Rightarrow> error + 'a tensor" where
  "view_pairs e_ij =
     bindE (shape_at e_ij 0) (\<lambda>n.
     bindE (shape_at e_ij (- 1)) (\<lambda>d.
     view e_ij [int n div 2, 2, int d]))"

definition pairwise_encoding :: "FastR2D2CrossSentence \<Rightarrow> real tensor \<Rightarrow> error + real tensor" where
  "pairwise_encoding self e_ij =
     bindE (shape_at e_ij 0) (\<lambda>sz.
     let mask_ids = zeros_fill sz (task_id self);
         mask_embedding = embedding (r2d2 self) mask_ids
     in
     bindE (unsqueeze mask_embedding 1) (\<lambda>unsqueezed.
     bindE (cat_dim1 unsqueezed e_ij) (\<lambda>input_embedding.
     let outputs = tree_decoder (r2d2 self) input_embedding
     in
     bindE (select_dim1_0 outputs) (\<lambda>mask_hidden.
     Inr (classifier self mask_hidden)))))"

definition CrossSentence_forward ::
  "externals \<Rightarrow> FastR2D2CrossSentence \<Rightarrow> int tensor \<Rightarrow> int tensor \<Rightarrow> int
     \<Rightarrow> atom_spans option \<Rightarrow> int tensor option \<Rightarrow> bool \<Rightarrow> forward_output run" where
  "CrossSentence_forward ext self input_ids0 attention_mask0 num_samples atom_spans labels
       force_encoding =
     bnd (lift (flatten_view input_ids0)) (\<lambda>input_ids.
     bnd (lift (flatten_view attention_mask0)) (\<lambda>attention_mask.
     (case labels of
        Some y \<Rightarrow>
          bnd (if \<not> disable_parser self
               then bnd (call_parser self input_ids attention_mask atom_spans) (\<lambda>s. ret (Some s))
               else ret None) (\<lambda>s_indices.
          bnd (call_r2d2 self
                 \<lparr>arg_input_ids = input_ids, arg_attention_mask = attention_mask,
                  merge_trajectories = s_indices, sample_trees = Some num_samples,
                  recover_tree = True, keep_tensor_cache = True,
                  lm_loss = Some True\<rparr>) (\<lambda>results.
          bnd (lift (get_sampled_trees results)) (\<lambda>sampled_trees.
          bnd (lift (root_pooling (res_tables results) (res_tensor_cache results))) (\<lambda>e_ij.
          bnd (lift (bindE (view_pairs e_ij) (pairwise_encoding self))) (\<lambda>logits.
          let loss = cross_entropy ext logits y;
              bilm_loss = res_loss results
          in
          bnd (call_parser_kl self input_ids attention_mask
                 (split_masks sampled_trees) (split_points sampled_trees)) (\<lambda>kl_loss.
          bnd (call_force_encode ext self input_ids attention_mask atom_spans) (\<lambda>e_ij.
          bnd (lift (bindE (view_pairs e_ij) (pairwise_encoding self))) (\<lambda>logits.
          let force_encoding_loss = cross_entropy ext logits y
          in ret (Loss (force_encoding_loss + loss + kl_loss + bilm_loss))))))))))
      | None \<Rightarrow>
          bnd (if \<not> force_encoding
               then
                 bnd (if \<not> disable_parser self
                      then bnd (call_parser self input_ids attention_mask atom_spans)
                             (\<lambda>s. ret (Some s))
                      else ret None) (\<lambda>s_indices.
                 bnd (call_r2d2 self
                        \<lparr>arg_input_ids = input_ids, arg_attention_mask = attention_mask,
                         merge_trajectories = s_indices, sample_trees = None,
                         recover_tree = True, keep_tensor_cache = True,
                         lm_loss = Some False\<rparr>) (\<lambda>results.
                 lift (root_pooling (res_tables results) (res_tensor_cache results))))
               else
                 bnd (if disable_parser self
                      then raise (Exception
                             ''Force encoding is not supported when disable_parser == True'')
                      else ret ()) (\<lambda>_.
                 call_force_encode ext self input_ids attention_mask atom_spans)) (\<lambda>e_ij.
          bnd (lift (bindE (view_pairs e_ij) (pairwise_encoding self))) (\<lambda>logits.
          ret (Probs (softmax logits)))))))"

section \<open>The four terms of the training loss\<close>

text \<open>
  The terms of the training objective as the specification names them, each written
  over the collaborators: the merge guidance of the parser (absent when the parser is
  disabled), the result of the one encoder call of a training step, the
  classification loss of the parsed path, the KL loss of the parser replayed on the
  sampled splits, and the classification loss of the force-encoded path. The
  language-model loss is the entry \<^verbatim>\<open>'loss'\<close> of the encoder's result. The head is
  the classifier alone in the single-sentence module, and the reshape to pairs
  followed by the pairwise combiner in the cross-sentence module.
\<close>

definition guidance ::
  "('z) FastR2D2Classification_scheme \<Rightarrow> int tensor \<Rightarrow> int tensor \<Rightarrow> atom_spans option
     \<Rightarrow> int tensor option" where
  "guidance self input_ids attention_mask atom_spans =
     (if disable_parser self then None
      else Some (parse (parser self) input_ids attention_mask atom_spans))"

definition guidance_events ::
  "('z) FastR2D2Classification_scheme \<Rightarrow> int tensor \<Rightarrow> int tensor \<Rightarrow> atom_spans option
     \<Rightarrow> event list" where
  "guidance_events self input_ids attention_mask atom_spans =
     (if disable_parser self then [] else [ParserCall input_ids attention_mask atom_spans])"

definition encoder_args ::
  "('z) FastR2D2Classification_scheme \<Rightarrow> int tensor \<Rightarrow> int tensor \<Rightarrow> atom_spans option
     \<Rightarrow> int option \<Rightarrow> bool option \<Rightarrow> r2d2_args" where
  "encoder_args self input_ids attention_mask atom_spans samples lm =
     \<lparr>arg_input_ids = input_ids, arg_attention_mask = attention_mask,
      merge_trajectories = guidance self input_ids attention_mask atom_spans,
      sample_trees = samples, recover_tree = True, keep_tensor_cache = True, lm_loss = lm\<rparr>"

definition cls_head :: "FastR2D2Classification \<Rightarrow> real tensor \<Rightarrow> error + real tensor" where
  "cls_head self e_ij = Inr (classifier self e_ij)"

definition cross_head :: "FastR2D2CrossSentence \<Rightarrow> real tensor \<Rightarrow> error + real tensor" where
  "cross_head self e_ij = bindE (view_pairs e_ij) (pairwise_encoding self)"

definition parsed_path_loss ::
  "externals \<Rightarrow> (real tensor \<Rightarrow> error + real tensor) \<Rightarrow> results \<Rightarrow> int tensor \<Rightarrow> error + real" where
  "parsed_path_loss ext head res y =
     bindE (root_pooling (res_tables res) (res_tensor_cache res)) (\<lambda>e_ij.
     bindE (head e_ij) (\<lambda>logits. Inr (cross_entropy ext logits y)))"

definition parser_kl_loss ::
  "('z) FastR2D2Classification_scheme \<Rightarrow> int tensor \<Rightarrow> int tensor \<Rightarrow> results \<Rightarrow> error + real" where
  "parser_kl_loss self input_ids attention_mask res =
     bindE (get_sampled_trees res) (\<lambda>st.
     Inr (parse_kl (parser self) input_ids attention_mask (split_masks st) (split_points st)))"

definition force_path_loss ::
  "externals \<Rightarrow> (real tensor \<Rightarrow> error + real tensor) \<Rightarrow> ('z) FastR2D2Classification_scheme
     \<Rightarrow> int tensor \<Rightarrow> int tensor \<Rightarrow> atom_spans option \<Rightarrow> int tensor \<Rightarrow> error + real" where
  "force_path_loss ext head self input_ids attention_mask atom_spans y =
     bindE (head (force_encode ext (parser self) (r2d2 self) input_ids attention_mask atom_spans))
       (\<lambda>logits. Inr (cross_entropy ext logits y))"

text \<open>The token and mask tensors an event was called with.\<close>

fun event_inputs :: "event \<Rightarrow> int tensor \<times> int tensor" where
  "event_inputs (ParserCall i m _) = (i, m)"
| "event_inputs (ParserKLCall i m _ _) = (i, m)"
| "event_inputs (R2D2Call args) = (arg_input_ids args, arg_attention_mask args)"
| "event_inputs (ForceEncodeCall i m _) = (i, m)"

fun is_r2d2_call :: "event \<Rightarrow> bool" where
  "is_r2d2_call (R2D2Call _) = True"
| "is_r2d2_call _ = False"


fun is_parser_kl_call :: "event \<Rightarrow> bool" where
  "is_parser_kl_call (ParserKLCall _ _ _ _) = True"
| "is_parser_kl_call _ = False"

section \<open>A concrete instance\<close>

text \<open>
  Stand-ins for the collaborators, each returning a fixed value, on which the model
  is run: an encoder that returns two tables with the cache ids 7 and 8, vectors of
  width 2 in the cache, the language-model loss 2 and one set of sampled trees; a
  parser whose KL loss is 5; a cross-entropy that is always 1; a classifier that is
  the identity; a force encoder that returns two zero vectors.
\<close>

definition stub_tensor_cache :: tensor_cache where
  "stub_tensor_cache =
     \<lparr>slot_dim = (\<lambda>_. 2),
      cells = (\<lambda>i. if i = 7 then Some (\<lambda>_. [1, 2])
                    else if i = 8 then Some (\<lambda>_. [3, 4]) else None)\<rparr>"

definition stub_tables :: "table list" where
  "stub_tables =
     [\<lparr>root' = \<lparr>best_node = \<lparr>cache_id = 7\<rparr>\<rparr>\<rparr>, \<lparr>root' = \<lparr>best_node = \<lparr>cache_id = 8\<rparr>\<rparr>\<rparr>]"

definition stub_empty :: "int tensor" where
  "stub_empty = \<lparr>shape = [0], elems = []\<rparr>"

definition stub_results :: results where
  "stub_results =
     \<lparr>res_tables = stub_tables, res_tensor_cache = stub_tensor_cache, res_loss = 2,
      res_sampled_trees = Some \<lparr>split_masks = stub_empty, split_points = stub_empty\<rparr>\<rparr>"

definition stub_r2d2 :: R2D2Cuda where
  "stub_r2d2 =
     \<lparr>r2d2_call = (\<lambda>_. stub_results),
      embedding = (\<lambda>t. \<lparr>shape = shape t @ [2],
                          elems = concat (map (\<lambda>i. [real_of_int i, 0]) (elems t))\<rparr>),
      tree_decoder = (\<lambda>t. t)\<rparr>"

definition stub_parser :: TopdownParser where
  "stub_parser = \<lparr>parse = (\<lambda>_ _ _. stub_empty), parse_kl = (\<lambda>_ _ _ _. 5)\<rparr>"

definition stub_externals :: externals where
  "stub_externals =
     \<lparr>force_encode = (\<lambda>_ _ _ _ _. \<lparr>shape = [2, 2], elems = [0, 0, 0, 0]\<rparr>),
      cross_entropy = (\<lambda>_ _. 1)\<rparr>"

definition stub_classification :: "bool \<Rightarrow> FastR2D2Classification" where
  "stub_classification d =
     \<lparr>r2d2 = stub_r2d2, parser = stub_parser, classifier = (\<lambda>t. t), disable_parser = d\<rparr>"

definition stub_cross_sentence :: "bool \<Rightarrow> FastR2D2CrossSentence" where
  "stub_cross_sentence d =
     \<lparr>r2d2 = stub_r2d2, parser = stub_parser, classifier = (\<lambda>t. t), disable_parser = d,
      task_id = 3\<rparr>"

definition stub_input_ids :: "int tensor" where
  "stub_input_ids = \<lparr>shape = [2, 3], elems = [11, 12, 13, 21, 22, 23]\<rparr>"

definition stub_attention_mask :: "int tensor" where
  "stub_attention_mask = \<lparr>shape = [2, 3], elems = [1, 1, 1, 1, 1, 0]\<rparr>"

definition stub_pair_ids :: "int tensor" where
  "stub_pair_ids = \<lparr>shape = [1, 2, 3], elems = [11, 12, 13, 21, 22, 23]\<rparr>"

definition stub_pair_mask :: "int tensor" where
  "stub_pair_mask = \<lparr>shape = [1, 2, 3], elems = [1, 1, 1, 1, 1, 0]\<rparr>"

definition stub_labels :: "int tensor" where
  "stub_labels = \<lparr>shape = [2], elems = [0, 1]\<rparr>"

definition stub_pair_labels :: "int tensor" where
  "stub_pair_labels = \<lparr>shape = [1], elems = [1]\<rparr>"

definition stub_pooled :: "real tensor" where
  "stub_pooled = \<lparr>shape = [2, 2], elems = [1, 2, 3, 4]\<rparr>"

definition stub_pairs :: "real tensor" where
  "stub_pairs = \<lparr>shape = [1, 2, 2], elems = [1, 2, 3, 4]\<rparr>"

text \<open>
  A second instance with two examples: four tables with the cache ids 7 to 10, four
  distinct vectors in the cache, and a tree decoder whose output at the first
  position of a triple is the second vector plus twice the third, so that the result
  tells the two sentences of a pair, and the two pairs, apart.
\<close>

fun stub_mix :: "real list \<Rightarrow> real list" where
  "stub_mix (t0 # t1 # a0 # a1 # b0 # b1 # rest) =
     [a0 + 2 * b0, a1 + 2 * b1, a0, a1, b0, b1] @ stub_mix rest"
| "stub_mix xs = xs"

definition stub2_tensor_cache :: tensor_cache where
  "stub2_tensor_cache =
     \<lparr>slot_dim = (\<lambda>_. 2),
      cells = (\<lambda>i. if i = 7 then Some (\<lambda>_. [1, 2])
                    else if i = 8 then Some (\<lambda>_. [3, 4])
                    else if i = 9 then Some (\<lambda>_. [5, 6])
                    else if i = 10 then Some (\<lambda>_. [7, 8]) else None)\<rparr>"

definition stub2_tables :: "table list" where
  "stub2_tables =
     [\<lparr>root' = \<lparr>best_node = \<lparr>cache_id = 7\<rparr>\<rparr>\<rparr>, \<lparr>root' = \<lparr>best_node = \<lparr>cache_id = 8\<rparr>\<rparr>\<rparr>,
      \<lparr>root' = \<lparr>best_node = \<lparr>cache_id = 9\<rparr>\<rparr>\<rparr>, \<lparr>root' = \<lparr>best_node = \<lparr>cache_id = 10\<rparr>\<rparr>\<rparr>]"

definition stub2_results :: results where
  "stub2_results =
     \<lparr>res_tables = stub2_tables, res_tensor_cache = stub2_tensor_cache, res_loss = 2,
      res_sampled_trees = Some \<lparr>split_masks = stub_empty, split_points = stub_empty\<rparr>\<rparr>"

definition stub2_r2d2 :: R2D2Cuda where
  "stub2_r2d2 =
     \<lparr>r2d2_call = (\<lambda>_. stub2_results),
      embedding = (\<lambda>t. \<lparr>shape = shape t @ [2],
                          elems = concat (map (\<lambda>i. [real_of_int i, 0]) (elems t))\<rparr>),
      tree_decoder = (\<lambda>t. t\<lparr>elems := stub_mix (elems t)\<rparr>)\<rparr>"

definition stub2_cross_sentence :: "bool \<Rightarrow> FastR2D2CrossSentence" where
  "stub2_cross_sentence d =
     \<lparr>r2d2 = stub2_r2d2, parser = stub_parser, classifier = (\<lambda>t. t), disable_parser = d,
      task_id = 3\<rparr>"

definition stub2_pair_ids :: "int tensor" where
  "stub2_pair_ids =
     \<lparr>shape = [2, 2, 3],
      elems = [111, 112, 113, 121, 122, 123, 211, 212, 213, 221, 222, 223]\<rparr>"

definition stub2_pair_mask :: "int tensor" where
  "stub2_pair_mask = \<lparr>shape = [2, 2, 3], elems = [1, 1, 1, 1, 1, 0, 1, 1, 0, 1, 0, 0]\<rparr>"

definition stub2_pooled :: "real tensor" where
  "stub2_pooled = \<lparr>shape = [4, 2], elems = [1, 2, 3, 4, 5, 6, 7, 8]\<rparr>"

definition stub2_pairs :: "real tensor" where
  "stub2_pairs = \<lparr>shape = [2, 2, 2], elems = [1, 2, 3, 4, 5, 6, 7, 8]\<rparr>"

text \<open>An input of shape \<open>(1, 2, 0)\<close>: one pair of sentences without tokens.\<close>

definition stub_no_tokens :: "int tensor" where
  "stub_no_tokens = \<lparr>shape = [1, 2, 0], elems = []\<rparr>"

section \<open>Auxiliary lemmas\<close>

lemma append_root_cache_ids_map:
  "append_root_cache_ids tables acc = acc @ map (\<lambda>t. cache_id (best_node (root' t))) tables"
  by (induction tables arbitrary: acc) simp_all

lemma block_concat_map:
  "\<forall>x\<in>set xs. length (f x) = w \<Longrightarrow> i < length xs \<Longrightarrow>
     take w (drop (i * w) (concat (map f xs))) = f (xs ! i)"
proof (induction xs arbitrary: i)
  case Nil
  then show ?case by simp
next
  case (Cons x xs)
  show ?case
  proof (cases i)
    case 0
    with Cons.prems show ?thesis by simp
  next
    case (Suc j)
    with Cons.prems have "j < length xs" and len: "length (f x) = w" and
      rest: "\<forall>x\<in>set xs. length (f x) = w" by simp_all
    have "drop (Suc j * w) (f x @ concat (map f xs)) = drop (j * w) (concat (map f xs))"
      using len by simp
    with Cons.IH [OF rest \<open>j < length xs\<close>] Suc show ?thesis by simp
  qed
qed

lemma length_concat_map_const:
  "\<forall>x\<in>set xs. length (f x) = w \<Longrightarrow> length (concat (map f xs)) = length xs * w"
  by (induction xs) simp_all

lemma chunks_0 [simp]: "chunks 0 xs = []"
  by (subst chunks.simps) simp

lemma chunks_Nil [simp]: "chunks d [] = []"
  by (subst chunks.simps) simp

lemma chunks_unfold: "d \<noteq> 0 \<Longrightarrow> xs \<noteq> [] \<Longrightarrow> chunks d xs = take d xs # chunks d (drop d xs)"
  by (subst chunks.simps) simp

lemma chunks_concat:
  assumes "\<And>ys. length (f ys) = length ys"
  shows "chunks d (concat (map f (chunks d xs))) = map f (chunks d xs)"
proof (induction d xs rule: chunks.induct)
  case (1 d xs)
  show ?case
  proof (cases "d = 0 \<or> xs = []")
    case True
    then show ?thesis by auto
  next
    case False
    then have d: "d \<noteq> 0" and xs: "xs \<noteq> []" by simp_all
    note unfold = chunks_unfold [OF d xs]
    let ?A = "f (take d xs)" and ?B = "concat (map f (chunks d (drop d xs)))"
    have lenA: "length ?A = min (length xs) d" using assms by simp
    have "0 < length ?A" using lenA d xs by simp
    then have ne: "?A @ ?B \<noteq> []" by auto
    have IH: "chunks d ?B = map f (chunks d (drop d xs))" using 1 False by simp
    show ?thesis
    proof (cases "d \<le> length xs")
      case True
      then have "length ?A = d" using lenA by simp
      then have "take d (?A @ ?B) = ?A" "drop d (?A @ ?B) = ?B" by simp_all
      then have "chunks d (?A @ ?B) = ?A # chunks d ?B"
        using chunks_unfold [OF d ne] by simp
      with IH unfold show ?thesis by simp
    next
      case False
      then have "drop d xs = []" by simp
      then have B: "?B = []" by simp
      have "length ?A \<le> d" using lenA by simp
      then have "take d ?A = ?A" "drop d ?A = []" by simp_all
      then have "chunks d ?A = [?A]"
        using chunks_unfold [OF d, of ?A] \<open>0 < length ?A\<close> by simp
      with B unfold \<open>drop d xs = []\<close> show ?thesis by simp
    qed
  qed
qed

lemma chunks_nonempty: "ys \<in> set (chunks d xs) \<Longrightarrow> ys \<noteq> []"
proof (induction d xs rule: chunks.induct)
  case (1 d xs)
  show ?case
  proof (cases "d = 0 \<or> xs = []")
    case True
    with "1.prems" show ?thesis by auto
  next
    case False
    then have "chunks d xs = take d xs # chunks d (drop d xs)"
      by (simp add: chunks_unfold)
    with "1.prems" "1.IH" False show ?thesis by auto
  qed
qed

lemma sum_exp_nonneg: "0 \<le> sum_list (map exp (xs :: real list))"
  by (induction xs) simp_all

lemma sum_exp_pos: "xs \<noteq> [] \<Longrightarrow> 0 < sum_list (map exp (xs :: real list))"
proof (cases xs)
  case Nil
  then show "xs \<noteq> [] \<Longrightarrow> ?thesis" by simp
next
  case (Cons a ys)
  have "0 < exp a + sum_list (map exp ys)"
    using sum_exp_nonneg [of ys] exp_gt_zero [of a] by linarith
  with Cons show ?thesis by simp
qed

lemma sum_list_divide: "sum_list (map (\<lambda>x. g x / (c::real)) xs) = sum_list (map g xs) / c"
  by (induction xs) (simp_all add: add_divide_distrib)

lemma softmax_row_sum: "xs \<noteq> [] \<Longrightarrow> sum_list (softmax_row xs) = 1"
  using sum_exp_pos [of xs] by (simp add: softmax_row_def sum_list_divide)

lemma softmax_row_nonneg: "x \<in> set (softmax_row xs) \<Longrightarrow> 0 \<le> x"
  using sum_exp_nonneg [of xs] by (auto simp: softmax_row_def)

lemma length_softmax_row: "length (softmax_row xs) = length xs"
  by (simp add: softmax_row_def)

lemma softmax_nonneg: "x \<in> set (elems (softmax t)) \<Longrightarrow> 0 \<le> x"
  by (auto simp: softmax_def dest: softmax_row_nonneg)

lemma rows_softmax:
  "0 < last_dim t \<Longrightarrow> rows (softmax t) = map softmax_row (rows t)"
proof -
  assume pos: "0 < last_dim t"
  have same: "last_dim (softmax t) = last_dim t"
    by (simp add: last_dim_def softmax_def)
  have "rows (softmax t) = chunks (last_dim t) (concat (map softmax_row (chunks (last_dim t) (elems t))))"
  proof -
    have "rows (softmax t) = chunks (last_dim t) (elems (softmax t))"
      using pos same by (simp add: rows_def)
    moreover have "elems (softmax t) = concat (map softmax_row (rows t))"
      by (simp add: softmax_def)
    moreover have "rows t = chunks (last_dim t) (elems t)"
      using pos by (simp add: rows_def)
    ultimately show ?thesis by simp
  qed
  also have "\<dots> = map softmax_row (chunks (last_dim t) (elems t))"
    by (rule chunks_concat) (rule length_softmax_row)
  finally show ?thesis using pos by (simp add: rows_def)
qed

lemma softmax_rows_sum:
  assumes "0 < last_dim t" "r \<in> set (rows (softmax t))"
  shows "sum_list r = 1"
proof -
  from assms obtain xs where "xs \<in> set (rows t)" "r = softmax_row xs"
    by (auto simp: rows_softmax)
  moreover from this assms have "xs \<noteq> []"
    by (auto simp: rows_def dest: chunks_nonempty split: if_splits)
  ultimately show ?thesis by (simp add: softmax_row_sum)
qed




lemmas run_defs = bnd_def ret_def lift_def raise_def call_parser_def call_r2d2_def
  call_parser_kl_def call_force_encode_def encoder_args_def guidance_def guidance_events_def
  parsed_path_loss_def parser_kl_loss_def cls_head_def cross_head_def force_path_loss_def
  bindE_def Let_def

lemma cls_training_run:
  "Classification_forward ext self ids am n spans (Some y) fe =
     (let args = encoder_args self ids am spans (Some n) None;
          res = r2d2_call (r2d2 self) args;
          evs = guidance_events self ids am spans @ [R2D2Call args]
      in (case parsed_path_loss ext (cls_head self) res y of
            Inl e \<Rightarrow> (Inl e, evs)
          | Inr l1 \<Rightarrow>
             (case (if disable_parser self then Inr 0 else parser_kl_loss self ids am res) of
                Inl e \<Rightarrow> (Inl e, evs)
              | Inr l3 \<Rightarrow>
                 (case force_path_loss ext (cls_head self) self ids am spans y of
                    Inl e \<Rightarrow> (Inl e, evs)
                  | Inr l4 \<Rightarrow>
                     (Inr (Loss (l4 + l1 + l3 + res_loss res)),
                      evs @ (if disable_parser self then []
                             else [ParserKLCall ids am
                                     (split_masks (the (res_sampled_trees res)))
                                     (split_points (the (res_sampled_trees res)))])
                          @ [ForceEncodeCall ids am spans])))))"
  by (auto simp add: Classification_forward_def run_defs get_sampled_trees_def
      split: sum.splits option.splits)

lemma cls_inference_run:
  "Classification_forward ext self ids am n spans None fe =
     (if \<not> fe
      then (bindE (root_pooling
                     (res_tables (r2d2_call (r2d2 self) (encoder_args self ids am spans None (Some False))))
                     (res_tensor_cache (r2d2_call (r2d2 self) (encoder_args self ids am spans None (Some False)))))
              (\<lambda>e_ij. Inr (Probs (softmax (classifier self e_ij)))),
            guidance_events self ids am spans
              @ [R2D2Call (encoder_args self ids am spans None (Some False))])
      else if disable_parser self
      then (Inl (Exception ''Force encoding is not supported when disable_parser == True''), [])
      else (Inr (Probs (softmax (classifier self
                   (force_encode ext (parser self) (r2d2 self) ids am spans)))),
            [ForceEncodeCall ids am spans]))"
  by (auto simp add: Classification_forward_def run_defs split: sum.splits)

lemma cross_flatten_failure:
  "flatten_view ids0 = Inl e \<Longrightarrow>
     CrossSentence_forward ext self ids0 am0 n spans labels fe = (Inl e, [])"
  "flatten_view ids0 = Inr ids \<Longrightarrow> flatten_view am0 = Inl e \<Longrightarrow>
     CrossSentence_forward ext self ids0 am0 n spans labels fe = (Inl e, [])"
  by (simp_all add: CrossSentence_forward_def bnd_def lift_def)

lemma cross_training_run:
  assumes "flatten_view ids0 = Inr ids" "flatten_view am0 = Inr am"
  shows "CrossSentence_forward ext self ids0 am0 n spans (Some y) fe =
     (let args = encoder_args self ids am spans (Some n) (Some True);
          res = r2d2_call (r2d2 self) args;
          evs = guidance_events self ids am spans @ [R2D2Call args]
      in (case parser_kl_loss self ids am res of
            Inl e \<Rightarrow> (Inl e, evs)
          | Inr l3 \<Rightarrow>
             (case parsed_path_loss ext (cross_head self) res y of
                Inl e \<Rightarrow> (Inl e, evs)
              | Inr l1 \<Rightarrow>
                 (case force_path_loss ext (cross_head self) self ids am spans y of
                    Inl e \<Rightarrow> (Inl e, evs @ [ParserKLCall ids am
                                             (split_masks (the (res_sampled_trees res)))
                                             (split_points (the (res_sampled_trees res))),
                                           ForceEncodeCall ids am spans])
                  | Inr l4 \<Rightarrow>
                     (Inr (Loss (l4 + l1 + l3 + res_loss res)),
                      evs @ [ParserKLCall ids am
                               (split_masks (the (res_sampled_trees res)))
                               (split_points (the (res_sampled_trees res))),
                             ForceEncodeCall ids am spans])))))"
  using assms
  by (auto simp add: CrossSentence_forward_def run_defs get_sampled_trees_def
      split: sum.splits option.splits)

lemma cross_inference_run:
  assumes "flatten_view ids0 = Inr ids" "flatten_view am0 = Inr am"
  shows "CrossSentence_forward ext self ids0 am0 n spans None fe =
     (if \<not> fe
      then (bindE (root_pooling
                     (res_tables (r2d2_call (r2d2 self) (encoder_args self ids am spans None (Some False))))
                     (res_tensor_cache (r2d2_call (r2d2 self) (encoder_args self ids am spans None (Some False)))))
              (\<lambda>e_ij. bindE (cross_head self e_ij) (\<lambda>logits. Inr (Probs (softmax logits)))),
            guidance_events self ids am spans
              @ [R2D2Call (encoder_args self ids am spans None (Some False))])
      else if disable_parser self
      then (Inl (Exception ''Force encoding is not supported when disable_parser == True''), [])
      else (bindE (cross_head self (force_encode ext (parser self) (r2d2 self) ids am spans))
              (\<lambda>logits. Inr (Probs (softmax logits))),
            [ForceEncodeCall ids am spans]))"
  using assms
  by (auto simp add: CrossSentence_forward_def run_defs split: sum.splits)

















lemma gather_E_IJ:
  assumes "populated c ids"
  shows "gather c ids [E_IJ] =
           Inr [\<lparr>shape = [length ids, slot_dim c E_IJ],
                 elems = concat (map (\<lambda>i. the (cells c i) E_IJ) ids)\<rparr>]"
proof -
  have "list_all (\<lambda>i. cells c i \<noteq> None) ids"
    using assms by (auto simp: populated_def list_all_iff split: option.splits)
  then show ?thesis by (simp add: gather_def)
qed

lemma populated_length:
  "populated c ids \<Longrightarrow> i \<in> set ids \<Longrightarrow> length (the (cells c i) E_IJ) = slot_dim c E_IJ"
  by (auto simp: populated_def list_all_iff split: option.splits)

lemma offset2: "offset [a, b] [i, k] = i * b + k"
  by simp

lemma offset3: "offset [a, b, c] [i, j, k] = i * (b * c) + j * c + k"
  by simp

lemma flatten_view_pairs:
  assumes "shape x = [B, 2, L]" "0 < L"
  shows "flatten_view x = Inr (x\<lparr>shape := [2 * B, L]\<rparr>)"
proof -
  have "shape_at x (- 1) = Inr L"
    using assms by (simp add: shape_at_def)
  moreover have "infer_size [- 1, int L] (B * (2 * L)) = Inr [2 * B, L]"
    using assms by (simp add: infer_size_def mult.commute)
  ultimately show ?thesis
    using assms by (simp add: flatten_view_def view_def bindE_def)
qed

lemma view_pairs_even:
  assumes "shape e = [2 * B, D]"
  shows "view_pairs e = Inr (e\<lparr>shape := [B, 2, D]\<rparr>)"
proof -
  have "shape_at e 0 = Inr (2 * B)" "shape_at e (- 1) = Inr D"
    using assms by (simp_all add: shape_at_def)
  moreover have "infer_size [int (2 * B) div 2, 2, int D] (2 * B * D) = Inr [B, 2, D]"
    by (simp add: infer_size_def)
  ultimately show ?thesis
    using assms by (simp add: view_pairs_def view_def bindE_def)
qed

lemma cross_events_inputs:
  assumes "flatten_view ids0 = Inr fids" "flatten_view am0 = Inr fam"
    and "ev \<in> set (snd (CrossSentence_forward ext self ids0 am0 n spans labels fe))"
  shows "event_inputs ev = (fids, fam)"
proof (cases labels)
  case None
  with assms(3) show ?thesis
    unfolding None cross_inference_run [OF assms(1,2)]
    by (auto simp: guidance_events_def encoder_args_def split: if_splits)
next
  case (Some y)
  with assms(3) show ?thesis
    unfolding Some cross_training_run [OF assms(1,2)] Let_def
    by (auto simp: guidance_events_def encoder_args_def split: if_splits sum.splits)
qed

lemma block_concat_upt:
  assumes "\<forall>i<n. length (g i) = w" "i < n"
  shows "take w (drop (i * w) (concat (map g [0..<n]))) = g i"
  using block_concat_map [of "[0..<n]" g w i] assms by simp

lemma length_concat_upt:
  assumes "\<forall>i<n. length (g i) = w"
  shows "length (concat (map g [0..<n])) = n * w"
  using length_concat_map_const [of "[0..<n]" g w] assms by simp

lemma length_block:
  assumes "length (elems t) = n * w" "i < n"
  shows "length (block t w i) = w"
proof -
  have "i * w + w \<le> n * w"
    using assms(2) by (metis Suc_leI mult_Suc mult_le_mono1 add.commute)
  then show ?thesis using assms(1) by (simp add: block_def)
qed

lemmas stub_defs = stub_tensor_cache_def stub_tables_def stub_empty_def stub_results_def
  stub_r2d2_def stub_parser_def stub_externals_def stub_classification_def
  stub_cross_sentence_def stub_input_ids_def stub_attention_mask_def stub_pair_ids_def
  stub_pair_mask_def stub_labels_def stub_pair_labels_def stub_pooled_def stub_pairs_def

lemma stub_flatten_view:
  "flatten_view stub_pair_ids = Inr stub_input_ids"
  "flatten_view stub_pair_mask = Inr stub_attention_mask"
  by (simp_all add: flatten_view_def shape_at_def view_def infer_size_def bindE_def stub_defs)

lemma stub_root_pooling: "root_pooling stub_tables stub_tensor_cache = Inr stub_pooled"
  by (simp add: root_pooling_def gather_def index0_def bindE_def stub_defs)

lemma stub_view_pairs:
  "view_pairs \<lparr>shape = [2, 2], elems = [a, b, c, e]\<rparr> = Inr \<lparr>shape = [1, 2, 2], elems = [a, b, c, e]\<rparr>"
  by (simp add: view_pairs_def shape_at_def view_def infer_size_def bindE_def)

lemma stub_pairwise_encoding:
  "pairwise_encoding (stub_cross_sentence d) \<lparr>shape = [1, 2, 2], elems = [a, b, c, e]\<rparr>
     = Inr \<lparr>shape = [1, 2], elems = [3, 0]\<rparr>"
  by (simp add: pairwise_encoding_def shape_at_def zeros_fill_def unsqueeze_def cat_dim1_def
        block_def select_dim1_0_def bindE_def stub_defs)

lemma stub_cross_head:
  "cross_head (stub_cross_sentence d) \<lparr>shape = [2, 2], elems = [a, b, c, e]\<rparr>
     = Inr \<lparr>shape = [1, 2], elems = [3, 0]\<rparr>"
  by (simp only: cross_head_def stub_view_pairs stub_pairwise_encoding bindE_def sum.case)

lemma stub_selectors:
  "r2d2_call (r2d2 (stub_classification d)) args = stub_results"
  "r2d2_call (r2d2 (stub_cross_sentence d)) args = stub_results"
  "disable_parser (stub_classification d) = d"
  "disable_parser (stub_cross_sentence d) = d"
  "res_loss stub_results = 2"
  "res_tables stub_results = stub_tables"
  "res_tensor_cache stub_results = stub_tensor_cache"
  by (simp_all add: stub_classification_def stub_cross_sentence_def stub_r2d2_def stub_results_def)

lemma stub_terms:
  "parsed_path_loss stub_externals (cls_head (stub_classification d)) stub_results y = Inr 1"
  "parsed_path_loss stub_externals (cross_head (stub_cross_sentence d)) stub_results y = Inr 1"
  "parser_kl_loss (stub_classification d) ids am stub_results = Inr 5"
  "parser_kl_loss (stub_cross_sentence d) ids am stub_results = Inr 5"
  "force_path_loss stub_externals (cls_head (stub_classification d)) (stub_classification d)
     ids am spans y = Inr 1"
  "force_path_loss stub_externals (cross_head (stub_cross_sentence d)) (stub_cross_sentence d)
     ids am spans y = Inr 1"
proof -
  show "parsed_path_loss stub_externals (cls_head (stub_classification d)) stub_results y = Inr 1"
    by (simp add: parsed_path_loss_def stub_selectors stub_root_pooling bindE_def cls_head_def
          stub_externals_def)
  show "parsed_path_loss stub_externals (cross_head (stub_cross_sentence d)) stub_results y = Inr 1"
    by (simp add: parsed_path_loss_def stub_selectors stub_root_pooling bindE_def
          stub_pooled_def stub_cross_head) (simp add: stub_externals_def)
  show "parser_kl_loss (stub_classification d) ids am stub_results = Inr 5"
    by (simp add: parser_kl_loss_def get_sampled_trees_def bindE_def stub_results_def
          stub_classification_def stub_parser_def)
  show "parser_kl_loss (stub_cross_sentence d) ids am stub_results = Inr 5"
    by (simp add: parser_kl_loss_def get_sampled_trees_def bindE_def stub_results_def
          stub_cross_sentence_def stub_parser_def)
  show "force_path_loss stub_externals (cls_head (stub_classification d)) (stub_classification d)
     ids am spans y = Inr 1"
    by (simp add: force_path_loss_def cls_head_def bindE_def stub_externals_def)
  have fe: "force_encode stub_externals p r ids am spans = \<lparr>shape = [2, 2], elems = [0, 0, 0, 0]\<rparr>"
    for p r
    by (simp add: stub_externals_def)
  show "force_path_loss stub_externals (cross_head (stub_cross_sentence d)) (stub_cross_sentence d)
     ids am spans y = Inr 1"
    by (simp add: force_path_loss_def fe stub_cross_head bindE_def) (simp add: stub_externals_def)
qed

lemma stub_cross_training_run:
  "CrossSentence_forward stub_externals (stub_cross_sentence d) stub_pair_ids stub_pair_mask
       n spans (Some y) fe =
     (Inr (Loss 9),
      (if d then [] else [ParserCall stub_input_ids stub_attention_mask spans])
      @ [R2D2Call \<lparr>arg_input_ids = stub_input_ids, arg_attention_mask = stub_attention_mask,
                   merge_trajectories = (if d then None else Some stub_empty),
                   sample_trees = Some n, recover_tree = True, keep_tensor_cache = True,
                   lm_loss = Some True\<rparr>,
         ParserKLCall stub_input_ids stub_attention_mask stub_empty stub_empty,
         ForceEncodeCall stub_input_ids stub_attention_mask spans])"
  unfolding cross_training_run [OF stub_flatten_view] Let_def stub_selectors stub_terms
  by (simp add: guidance_events_def encoder_args_def guidance_def stub_selectors)
     (simp add: stub_results_def stub_cross_sentence_def stub_parser_def)

lemma stub_cls_training_run:
  "Classification_forward stub_externals (stub_classification d) stub_input_ids
       stub_attention_mask n spans (Some y) fe =
     (Inr (Loss (if d then 4 else 9)),
      (if d then [] else [ParserCall stub_input_ids stub_attention_mask spans])
      @ [R2D2Call \<lparr>arg_input_ids = stub_input_ids, arg_attention_mask = stub_attention_mask,
                   merge_trajectories = (if d then None else Some stub_empty),
                   sample_trees = Some n, recover_tree = True, keep_tensor_cache = True,
                   lm_loss = None\<rparr>]
      @ (if d then [] else [ParserKLCall stub_input_ids stub_attention_mask stub_empty stub_empty])
      @ [ForceEncodeCall stub_input_ids stub_attention_mask spans])"
  unfolding cls_training_run Let_def stub_selectors stub_terms
  by (simp add: guidance_events_def encoder_args_def guidance_def stub_selectors)
     (simp add: stub_results_def stub_classification_def stub_parser_def)

lemma flatten_view_result:
  assumes "shape x = [B, 2, L]" "flatten_view x = Inr f"
  shows "0 < L \<and> f = x\<lparr>shape := [2 * B, L]\<rparr>"
proof (cases "L = 0")
  case True
  have "shape_at x (- 1) = Inr L"
    using assms(1) by (simp add: shape_at_def)
  then have "flatten_view x = Inl RuntimeError"
    using True by (simp add: flatten_view_def view_def infer_size_def bindE_def)
  with assms(2) show ?thesis by simp
next
  case False
  then have "0 < L" by simp
  with flatten_view_pairs [OF assms(1) this] assms(2) show ?thesis by simp
qed

lemma view_pairs_result:
  assumes "shape e = [2 * B, D]" "view_pairs e = Inr p"
  shows "p = e\<lparr>shape := [B, 2, D]\<rparr>"
  using view_pairs_even [OF assms(1)] assms(2) by simp

lemma stub2_flatten_view:
  "flatten_view stub2_pair_ids = Inr (stub2_pair_ids\<lparr>shape := [4, 3]\<rparr>)"
  "flatten_view stub2_pair_mask = Inr (stub2_pair_mask\<lparr>shape := [4, 3]\<rparr>)"
  by (simp_all add: flatten_view_def shape_at_def view_def infer_size_def bindE_def
        stub2_pair_ids_def stub2_pair_mask_def)

lemma stub2_root_pooling: "root_pooling stub2_tables stub2_tensor_cache = Inr stub2_pooled"
  by (simp add: root_pooling_def gather_def index0_def bindE_def stub2_tables_def
        stub2_tensor_cache_def stub2_pooled_def)

lemma stub2_view_pairs: "view_pairs stub2_pooled = Inr stub2_pairs"
  by (simp add: view_pairs_def shape_at_def view_def infer_size_def bindE_def
        stub2_pooled_def stub2_pairs_def)

lemma stub2_pairwise_encoding:
  "pairwise_encoding (stub2_cross_sentence d) stub2_pairs
     = Inr \<lparr>shape = [2, 2], elems = [7, 10, 19, 22]\<rparr>"
  by (simp add: pairwise_encoding_def shape_at_def zeros_fill_def unsqueeze_def cat_dim1_def
        block_def select_dim1_0_def bindE_def stub2_cross_sentence_def stub2_r2d2_def
        stub2_pairs_def numeral_2_eq_2)

section \<open>The claims\<close>

text \<open>
  Claim C1. A training call of either module returns a value exactly when the four
  terms are computed without error, and the value is then their unweighted sum: the
  classification loss of the parsed path, the language-model loss of the encoder
  (\<^verbatim>\<open>results['loss']\<close>), the KL loss of the parser, and the classification loss
  of the force-encoded path.
\<close>

theorem C1_training_loss_is_sum:
  "(fst (Classification_forward ext self ids am n spans (Some y) fe) = Inr out \<longleftrightarrow>
      (\<exists>l1 l3 l4.
         parsed_path_loss ext (cls_head self)
           (r2d2_call (r2d2 self) (encoder_args self ids am spans (Some n) None)) y = Inr l1 \<and>
         (if disable_parser self then Inr 0
          else parser_kl_loss self ids am
                 (r2d2_call (r2d2 self) (encoder_args self ids am spans (Some n) None))) = Inr l3 \<and>
         force_path_loss ext (cls_head self) self ids am spans y = Inr l4 \<and>
         out = Loss (l1
                     + res_loss (r2d2_call (r2d2 self) (encoder_args self ids am spans (Some n) None))
                     + l3 + l4)))
   \<and> (fst (CrossSentence_forward ext selfx ids0 am0 n spans (Some y) fe) = Inr out \<longleftrightarrow>
      (\<exists>fids fam l1 l3 l4.
         flatten_view ids0 = Inr fids \<and> flatten_view am0 = Inr fam \<and>
         parsed_path_loss ext (cross_head selfx)
           (r2d2_call (r2d2 selfx) (encoder_args selfx fids fam spans (Some n) (Some True))) y = Inr l1 \<and>
         parser_kl_loss selfx fids fam
           (r2d2_call (r2d2 selfx) (encoder_args selfx fids fam spans (Some n) (Some True))) = Inr l3 \<and>
         force_path_loss ext (cross_head selfx) selfx fids fam spans y = Inr l4 \<and>
         out = Loss (l1
                     + res_loss (r2d2_call (r2d2 selfx) (encoder_args selfx fids fam spans (Some n) (Some True)))
                     + l3 + l4)))"
proof (intro conjI)
  show "fst (Classification_forward ext self ids am n spans (Some y) fe) = Inr out \<longleftrightarrow>
      (\<exists>l1 l3 l4.
         parsed_path_loss ext (cls_head self)
           (r2d2_call (r2d2 self) (encoder_args self ids am spans (Some n) None)) y = Inr l1 \<and>
         (if disable_parser self then Inr 0
          else parser_kl_loss self ids am
                 (r2d2_call (r2d2 self) (encoder_args self ids am spans (Some n) None))) = Inr l3 \<and>
         force_path_loss ext (cls_head self) self ids am spans y = Inr l4 \<and>
         out = Loss (l1
                     + res_loss (r2d2_call (r2d2 self) (encoder_args self ids am spans (Some n) None))
                     + l3 + l4))"
    unfolding cls_training_run Let_def
    by (auto split: sum.splits simp: algebra_simps)
next
  show "fst (CrossSentence_forward ext selfx ids0 am0 n spans (Some y) fe) = Inr out \<longleftrightarrow>
      (\<exists>fids fam l1 l3 l4.
         flatten_view ids0 = Inr fids \<and> flatten_view am0 = Inr fam \<and>
         parsed_path_loss ext (cross_head selfx)
           (r2d2_call (r2d2 selfx) (encoder_args selfx fids fam spans (Some n) (Some True))) y = Inr l1 \<and>
         parser_kl_loss selfx fids fam
           (r2d2_call (r2d2 selfx) (encoder_args selfx fids fam spans (Some n) (Some True))) = Inr l3 \<and>
         force_path_loss ext (cross_head selfx) selfx fids fam spans y = Inr l4 \<and>
         out = Loss (l1
                     + res_loss (r2d2_call (r2d2 selfx) (encoder_args selfx fids fam spans (Some n) (Some True)))
                     + l3 + l4))"
  proof (cases "flatten_view ids0")
    case (Inl e)
    then show ?thesis by (simp add: cross_flatten_failure)
  next
    case ids: (Inr fids)
    show ?thesis
    proof (cases "flatten_view am0")
      case (Inl e)
      with ids show ?thesis by (simp add: cross_flatten_failure)
    next
      case am: (Inr fam)
      show ?thesis
        unfolding cross_training_run [OF ids am] Let_def using ids am
        by (auto split: sum.splits simp: algebra_simps)
    qed
  qed
qed

text \<open>
  On the stand-in collaborators the two modules return the sums \<open>1 + 2 + 5 + 1\<close> and, for the
  single-sentence module with its parser disabled, \<open>1 + 2 + 0 + 1\<close>.
\<close>

theorem C1_training_loss_is_sum_witness:
  "fst (Classification_forward stub_externals (stub_classification False) stub_input_ids
          stub_attention_mask 1 None (Some stub_labels) False) = Inr (Loss 9)
   \<and> fst (Classification_forward stub_externals (stub_classification True) stub_input_ids
          stub_attention_mask 1 None (Some stub_labels) False) = Inr (Loss 4)
   \<and> fst (CrossSentence_forward stub_externals (stub_cross_sentence False) stub_pair_ids
          stub_pair_mask 1 None (Some stub_pair_labels) False) = Inr (Loss 9)"
proof (intro conjI)
  show "fst (Classification_forward stub_externals (stub_classification False) stub_input_ids
          stub_attention_mask 1 None (Some stub_labels) False) = Inr (Loss 9)"
    by (simp add: C1_training_loss_is_sum [THEN conjunct1] stub_selectors stub_terms)
  show "fst (Classification_forward stub_externals (stub_classification True) stub_input_ids
          stub_attention_mask 1 None (Some stub_labels) False) = Inr (Loss 4)"
    by (simp add: C1_training_loss_is_sum [THEN conjunct1] stub_selectors stub_terms)
  show "fst (CrossSentence_forward stub_externals (stub_cross_sentence False) stub_pair_ids
          stub_pair_mask 1 None (Some stub_pair_labels) False) = Inr (Loss 9)"
    by (simp add: C1_training_loss_is_sum [THEN conjunct2] stub_flatten_view stub_selectors
          stub_terms)
qed

text \<open>
  Claim C2, evaluated. With the parser disabled, a training call of the
  cross-sentence module on the stand-in collaborators passes no merge guidance to the
  encoder, but it still calls the parser for the KL loss and adds that loss (here 5)
  to the sum: it returns \<open>1 + 1 + 5 + 2 = 9\<close>. The single-sentence module in the
  same configuration makes no parser call and returns \<open>1 + 1 + 0 + 2 = 4\<close>.
\<close>

theorem C2_cross_sentence_kl_unguarded:
  "CrossSentence_forward stub_externals (stub_cross_sentence True) stub_pair_ids stub_pair_mask
       1 None (Some stub_pair_labels) False =
     (Inr (Loss 9),
      [R2D2Call \<lparr>arg_input_ids = stub_input_ids, arg_attention_mask = stub_attention_mask,
                 merge_trajectories = None, sample_trees = Some 1, recover_tree = True,
                 keep_tensor_cache = True, lm_loss = Some True\<rparr>,
       ParserKLCall stub_input_ids stub_attention_mask stub_empty stub_empty,
       ForceEncodeCall stub_input_ids stub_attention_mask None])
   \<and> Classification_forward stub_externals (stub_classification True) stub_input_ids
       stub_attention_mask 1 None (Some stub_labels) False =
     (Inr (Loss 4),
      [R2D2Call \<lparr>arg_input_ids = stub_input_ids, arg_attention_mask = stub_attention_mask,
                 merge_trajectories = None, sample_trees = Some 1, recover_tree = True,
                 keep_tensor_cache = True, lm_loss = None\<rparr>,
       ForceEncodeCall stub_input_ids stub_attention_mask None])"
  by (simp add: stub_cross_training_run stub_cls_training_run)

text \<open>
  Claim C3. An inference call (no labels) with \<^verbatim>\<open>force_encoding=True\<close> on a module
  whose parser is disabled returns no value and calls neither the encoder nor
  \<^verbatim>\<open>force_encode\<close>. The single-sentence module raises the exception with its
  message; the cross-sentence module raises it as soon as the two \<^verbatim>\<open>view\<close> calls
  on its inputs have succeeded.
\<close>

theorem C3_force_encoding_needs_parser:
  assumes "disable_parser self" and "disable_parser selfx"
  shows "Classification_forward ext self ids am n spans None True =
           (Inl (Exception ''Force encoding is not supported when disable_parser == True''), [])
         \<and> (\<exists>e. CrossSentence_forward ext selfx ids0 am0 n spans None True = (Inl e, [])
                \<and> ((\<exists>fids fam. flatten_view ids0 = Inr fids \<and> flatten_view am0 = Inr fam) \<longrightarrow>
                     e = Exception ''Force encoding is not supported when disable_parser == True''))"
proof
  show "Classification_forward ext self ids am n spans None True =
          (Inl (Exception ''Force encoding is not supported when disable_parser == True''), [])"
    using assms(1) by (simp add: cls_inference_run)
next
  show "\<exists>e. CrossSentence_forward ext selfx ids0 am0 n spans None True = (Inl e, [])
          \<and> ((\<exists>fids fam. flatten_view ids0 = Inr fids \<and> flatten_view am0 = Inr fam) \<longrightarrow>
               e = Exception ''Force encoding is not supported when disable_parser == True'')"
  proof (cases "flatten_view ids0")
    case (Inl e)
    then show ?thesis by (simp add: cross_flatten_failure)
  next
    case ids: (Inr fids)
    show ?thesis
    proof (cases "flatten_view am0")
      case (Inl e)
      with ids show ?thesis by (simp add: cross_flatten_failure)
    next
      case am: (Inr fam)
      show ?thesis using assms(2) ids am by (simp add: cross_inference_run [OF ids am])
    qed
  qed
qed

text \<open>
  Both modules on the stand-in collaborators, parser disabled.
\<close>

theorem C3_force_encoding_needs_parser_witness:
  "Classification_forward stub_externals (stub_classification True) stub_input_ids
       stub_attention_mask 0 None None True =
     (Inl (Exception ''Force encoding is not supported when disable_parser == True''), [])
   \<and> CrossSentence_forward stub_externals (stub_cross_sentence True) stub_pair_ids
       stub_pair_mask 0 None None True =
     (Inl (Exception ''Force encoding is not supported when disable_parser == True''), [])"
  using C3_force_encoding_needs_parser [of "stub_classification True" "stub_cross_sentence True"
          stub_externals stub_input_ids stub_attention_mask 0 None stub_pair_ids stub_pair_mask]
        stub_flatten_view
  by (auto simp: stub_selectors)

text \<open>
  Claim C4. For a list of \<open>N\<close> tables whose root cache ids are populated in the
  tensor cache, the pooling step returns a well-formed tensor of \<open>N\<close> rows, and row
  \<open>i\<close> is the \<^verbatim>\<open>E_IJ\<close> vector stored in the cache under
  \<^verbatim>\<open>tables[i].root.best_node.cache_id\<close>: the rows keep the order of the tables.
\<close>

theorem C4_pooling_rows:
  assumes "populated cache (map (\<lambda>t. cache_id (best_node (root' t))) tables)"
  shows "\<exists>e_ij. root_pooling tables cache = Inr e_ij
           \<and> shape e_ij = [length tables, slot_dim cache E_IJ]
           \<and> wf_tensor e_ij
           \<and> (\<forall>i<length tables.
                 block e_ij (slot_dim cache E_IJ) i =
                   the (cells cache (cache_id (best_node (root' (tables ! i))))) E_IJ)"
proof -
  let ?ids = "map (\<lambda>t. cache_id (best_node (root' t))) tables"
  let ?row = "\<lambda>i. the (cells cache i) E_IJ"
  let ?e = "\<lparr>shape = [length ?ids, slot_dim cache E_IJ], elems = concat (map ?row ?ids)\<rparr>"
  have len: "\<forall>i\<in>set ?ids. length (?row i) = slot_dim cache E_IJ"
    using populated_length [OF assms] by blast
  have run: "root_pooling tables cache = Inr ?e"
    by (simp add: root_pooling_def append_root_cache_ids_map gather_E_IJ [OF assms]
          bindE_def index0_def)
  have wf: "wf_tensor ?e"
    using length_concat_map_const [OF len] by (simp add: wf_tensor_def)
  have rows: "block ?e (slot_dim cache E_IJ) i = ?row (?ids ! i)" if "i < length tables" for i
    using block_concat_map [OF len, of i] that by (simp add: block_def)
  show ?thesis
    using run wf rows by (intro exI [of _ ?e]) simp
qed

text \<open>
  The two stand-in tables, with cache ids 7 and 8, pool to the rows \<open>[1, 2]\<close> and \<open>[3, 4]\<close>.
\<close>

theorem C4_pooling_rows_witness:
  "root_pooling stub_tables stub_tensor_cache = Inr stub_pooled
   \<and> block stub_pooled 2 0 = [1, 2] \<and> block stub_pooled 2 1 = [3, 4]"
proof -
  have pop: "populated stub_tensor_cache (map (\<lambda>t. cache_id (best_node (root' t))) stub_tables)"
    by (simp add: populated_def stub_tensor_cache_def stub_tables_def)
  from C4_pooling_rows [OF pop] obtain e_ij where
    run: "root_pooling stub_tables stub_tensor_cache = Inr e_ij" and
    rows: "\<forall>i<length stub_tables.
             block e_ij (slot_dim stub_tensor_cache E_IJ) i =
               the (cells stub_tensor_cache (cache_id (best_node (root' (stub_tables ! i))))) E_IJ"
    by blast
  from run have e: "e_ij = stub_pooled" by (simp add: stub_root_pooling)
  have dim: "slot_dim stub_tensor_cache E_IJ = 2"
    by (simp add: stub_tensor_cache_def)
  have "block e_ij 2 0 = [1, 2]" "block e_ij 2 1 = [3, 4]"
    using rows unfolding dim by (simp_all add: stub_tables_def stub_tensor_cache_def)
  then show ?thesis
    using e stub_root_pooling by simp
qed

text \<open>
  Claim C5, as amended. For inputs of shape \<open>(B, 2, L)\<close> on which the two
  \<^verbatim>\<open>view\<close> calls of the cross-sentence \<^verbatim>\<open>forward\<close> succeed, the flattened
  tensors have shape \<open>(2B, L)\<close> and row \<open>2b + j\<close> of a flat tensor is sentence \<open>j\<close>
  of example \<open>b\<close>; the encoder is called with the flattened tensors, and every call
  in the trace receives them, whatever \<^verbatim>\<open>force_encoding\<close> is. When the pooled tensor of that encoder call has \<open>2B\<close>
  rows and its view to pairs succeeds, \<open>pairs[b, 0]\<close> and \<open>pairs[b, 1]\<close> are the
  pooled rows \<open>2b\<close> and \<open>2b + 1\<close>, and the value of \<^verbatim>\<open>forward\<close> is computed from
  these pairs by the pairwise combiner: the softmax of its logits on inference, and
  on training the sum whose parsed-path term is the cross-entropy of its logits.
\<close>

theorem C5_flatten_and_reshape:
  assumes "shape ids0 = [B, 2, L]" and "shape am0 = [B, 2, L]"
    and "flatten_view ids0 = Inr fids" and "flatten_view am0 = Inr fam"
    and "args = encoder_args self fids fam spans
                  (case labels of None \<Rightarrow> None | Some _ \<Rightarrow> Some n) (Some (labels \<noteq> None))"
    and "res = r2d2_call (r2d2 self) args"
    and "root_pooling (res_tables res) (res_tensor_cache res) = Inr e_ij"
    and "shape e_ij = [2 * B, D]"
    and "view_pairs e_ij = Inr pairs"
  shows "shape fids = [2 * B, L] \<and> shape fam = [2 * B, L]
         \<and> (\<forall>b k. entry fids [2 * b, k] = entry ids0 [b, 0, k]
                  \<and> entry fids [2 * b + 1, k] = entry ids0 [b, 1, k]
                  \<and> entry fam [2 * b, k] = entry am0 [b, 0, k]
                  \<and> entry fam [2 * b + 1, k] = entry am0 [b, 1, k])
         \<and> arg_input_ids args = fids \<and> arg_attention_mask args = fam
         \<and> R2D2Call args \<in> set (snd (CrossSentence_forward ext self ids0 am0 n spans labels False))
         \<and> (\<forall>ev \<in> set (snd (CrossSentence_forward ext self ids0 am0 n spans labels fe)).
               event_inputs ev = (fids, fam))
         \<and> shape pairs = [B, 2, D]
         \<and> (\<forall>b k. entry pairs [b, 0, k] = entry e_ij [2 * b, k]
                  \<and> entry pairs [b, 1, k] = entry e_ij [2 * b + 1, k])
         \<and> fst (CrossSentence_forward ext self ids0 am0 n spans labels False) =
             (case labels of
                None \<Rightarrow>
                  bindE (pairwise_encoding self pairs) (\<lambda>logits. Inr (Probs (softmax logits)))
              | Some y \<Rightarrow>
                  bindE (parser_kl_loss self fids fam res) (\<lambda>kl_loss.
                  bindE (pairwise_encoding self pairs) (\<lambda>logits.
                  bindE (force_path_loss ext (cross_head self) self fids fam spans y)
                    (\<lambda>force_encoding_loss.
                  Inr (Loss (force_encoding_loss + cross_entropy ext logits y + kl_loss
                             + res_loss res))))))"
proof -
  have fids: "fids = ids0\<lparr>shape := [2 * B, L]\<rparr>" and fam: "fam = am0\<lparr>shape := [2 * B, L]\<rparr>"
    using flatten_view_result [OF assms(1,3)] flatten_view_result [OF assms(2,4)] by simp_all
  have pairs: "pairs = e_ij\<lparr>shape := [B, 2, D]\<rparr>"
    using view_pairs_result [OF assms(8,9)] .
  have flat: "entry fids [2 * b, k] = entry ids0 [b, 0, k]"
             "entry fids [2 * b + 1, k] = entry ids0 [b, 1, k]"
             "entry fam [2 * b, k] = entry am0 [b, 0, k]"
             "entry fam [2 * b + 1, k] = entry am0 [b, 1, k]" for b k
    using assms(1,2) unfolding fids fam by (simp_all add: entry_def algebra_simps)
  have repair: "entry pairs [b, 0, k] = entry e_ij [2 * b, k]"
               "entry pairs [b, 1, k] = entry e_ij [2 * b + 1, k]" for b k
    using assms(8) unfolding pairs by (simp_all add: entry_def algebra_simps)
  have args: "arg_input_ids args = fids" "arg_attention_mask args = fam"
    using assms(5) by (simp_all add: encoder_args_def)
  have head: "cross_head self e_ij = pairwise_encoding self pairs"
    using assms(9) by (simp add: cross_head_def bindE_def)
  have evs: "\<forall>ev \<in> set (snd (CrossSentence_forward ext self ids0 am0 n spans labels fe)).
               event_inputs ev = (fids, fam)"
    using cross_events_inputs [OF assms(3,4)] by blast
  have call: "R2D2Call args \<in> set (snd (CrossSentence_forward ext self ids0 am0 n spans labels False))"
  proof (cases labels)
    case None
    then show ?thesis
      using assms(5) by (simp add: cross_inference_run [OF assms(3,4)])
  next
    case (Some y)
    then show ?thesis
      using assms(5) unfolding Some cross_training_run [OF assms(3,4)] Let_def
      by (auto split: sum.splits)
  qed
  have val: "fst (CrossSentence_forward ext self ids0 am0 n spans labels False) =
             (case labels of
                None \<Rightarrow>
                  bindE (pairwise_encoding self pairs) (\<lambda>logits. Inr (Probs (softmax logits)))
              | Some y \<Rightarrow>
                  bindE (parser_kl_loss self fids fam res) (\<lambda>kl_loss.
                  bindE (pairwise_encoding self pairs) (\<lambda>logits.
                  bindE (force_path_loss ext (cross_head self) self fids fam spans y)
                    (\<lambda>force_encoding_loss.
                  Inr (Loss (force_encoding_loss + cross_entropy ext logits y + kl_loss
                             + res_loss res))))))"
  proof (cases labels)
    case None
    then show ?thesis
      using assms(5,6,7) head
      by (simp add: cross_inference_run [OF assms(3,4)] bindE_def)
  next
    case (Some y)
    have parsed: "parsed_path_loss ext (cross_head self) res y =
                    bindE (pairwise_encoding self pairs) (\<lambda>logits. Inr (cross_entropy ext logits y))"
      using assms(7) head by (simp add: parsed_path_loss_def bindE_def)
    show ?thesis
      using assms(5,6) parsed unfolding Some cross_training_run [OF assms(3,4)] Let_def
      by (auto simp: bindE_def split: sum.splits)
  qed
  show ?thesis
    using fids fam pairs flat repair args evs call val by simp
qed

text \<open>
  Two examples: the flat rows 2 and 3 are the two sentences of example 1, the pairs
  \<open>[1, 0]\<close> and \<open>[1, 1]\<close> are the pooled rows 2 and 3, and the logits
  \<open>[7, 10]\<close> and \<open>[19, 22]\<close> are, per pair, the first pooled vector plus twice the
  second.
\<close>

theorem C5_flatten_and_reshape_witness:
  "flatten_view stub2_pair_ids = Inr (stub2_pair_ids\<lparr>shape := [4, 3]\<rparr>)
   \<and> entry (stub2_pair_ids\<lparr>shape := [4, 3]\<rparr>) [2, 0] = entry stub2_pair_ids [1, 0, 0]
   \<and> entry stub2_pair_ids [1, 0, 0] = 211
   \<and> entry (stub2_pair_ids\<lparr>shape := [4, 3]\<rparr>) [3, 0] = entry stub2_pair_ids [1, 1, 0]
   \<and> entry stub2_pair_ids [1, 1, 0] = 221
   \<and> view_pairs stub2_pooled = Inr stub2_pairs
   \<and> entry stub2_pairs [1, 0, 0] = entry stub2_pooled [2, 0]
   \<and> entry stub2_pooled [2, 0] = 5
   \<and> entry stub2_pairs [1, 1, 0] = entry stub2_pooled [3, 0]
   \<and> entry stub2_pooled [3, 0] = 7
   \<and> fst (CrossSentence_forward stub_externals (stub2_cross_sentence True) stub2_pair_ids
            stub2_pair_mask 0 None None False)
       = Inr (Probs (softmax \<lparr>shape = [2, 2], elems = [7, 10, 19, 22]\<rparr>))"
proof -
  let ?fids = "stub2_pair_ids\<lparr>shape := [4, 3]\<rparr>" and ?fam = "stub2_pair_mask\<lparr>shape := [4, 3]\<rparr>"
  let ?args = "encoder_args (stub2_cross_sentence True) ?fids ?fam None
                 (case None :: int tensor option of None \<Rightarrow> None | Some _ \<Rightarrow> Some 0)
                 (Some ((None :: int tensor option) \<noteq> None))"
  have shapes: "shape stub2_pair_ids = [2, 2, 3]" "shape stub2_pair_mask = [2, 2, 3]"
    by (simp_all add: stub2_pair_ids_def stub2_pair_mask_def)
  have res: "stub2_results = r2d2_call (r2d2 (stub2_cross_sentence True)) ?args"
    by (simp add: stub2_cross_sentence_def stub2_r2d2_def)
  have pool: "root_pooling (res_tables stub2_results) (res_tensor_cache stub2_results)
                = Inr stub2_pooled"
    by (simp add: stub2_results_def stub2_root_pooling)
  have shape_pooled: "shape stub2_pooled = [2 * 2, 2]"
    by (simp add: stub2_pooled_def)
  note inst = C5_flatten_and_reshape [OF shapes stub2_flatten_view refl res pool shape_pooled
      stub2_view_pairs, of stub_externals]
  from inst have a: "entry ?fids [2 * 1, 0] = entry stub2_pair_ids [1, 0, 0]"
    and b: "entry ?fids [2 * 1 + 1, 0] = entry stub2_pair_ids [1, 1, 0]"
    and c: "entry stub2_pairs [1, 0, 0] = entry stub2_pooled [2 * 1, 0]"
    and d: "entry stub2_pairs [1, 1, 0] = entry stub2_pooled [2 * 1 + 1, 0]"
    by blast+
  from inst have val: "fst (CrossSentence_forward stub_externals (stub2_cross_sentence True)
            stub2_pair_ids stub2_pair_mask 0 None None False)
       = bindE (pairwise_encoding (stub2_cross_sentence True) stub2_pairs)
           (\<lambda>logits. Inr (Probs (softmax logits)))"
    by simp
  have e: "entry stub2_pair_ids [1, 0, 0] = 211" "entry stub2_pair_ids [1, 1, 0] = 221"
    "entry stub2_pooled [2, 0] = 5" "entry stub2_pooled [3, 0] = 7"
    by (simp_all add: entry_def stub2_pair_ids_def stub2_pooled_def)
  have val': "fst (CrossSentence_forward stub_externals (stub2_cross_sentence True)
            stub2_pair_ids stub2_pair_mask 0 None None False)
       = Inr (Probs (softmax \<lparr>shape = [2, 2], elems = [7, 10, 19, 22]\<rparr>))"
    unfolding val stub2_pairwise_encoding by (simp add: bindE_def)
  show ?thesis
    using a b c d e val' stub2_flatten_view(1) stub2_view_pairs by simp
qed

text \<open>
  Claim C5 as stated, for every input of shape \<open>(B, 2, L)\<close>, fails on an input
  without tokens: with \<open>L = 0\<close> the call \<^verbatim>\<open>input_ids.view(-1, 0)\<close> raises, and
  \<^verbatim>\<open>forward\<close> flattens nothing, makes no call and returns no value, with labels or
  without.
\<close>

theorem C5_no_tokens_counterexample:
  "shape stub_no_tokens = [1, 2, 0]
   \<and> flatten_view stub_no_tokens = Inl RuntimeError
   \<and> CrossSentence_forward stub_externals (stub_cross_sentence False) stub_no_tokens
         stub_no_tokens 0 None None False = (Inl RuntimeError, [])
   \<and> CrossSentence_forward stub_externals (stub_cross_sentence False) stub_no_tokens
         stub_no_tokens 0 None (Some stub_pair_labels) False = (Inl RuntimeError, [])"
proof -
  have f: "flatten_view stub_no_tokens = Inl RuntimeError"
    by (simp add: flatten_view_def shape_at_def view_def infer_size_def bindE_def
          stub_no_tokens_def)
  then show ?thesis
    by (simp add: cross_flatten_failure stub_no_tokens_def)
qed

text \<open>
  Claim C6. On pooled pairs of shape \<open>(P, 2, D)\<close>, with an embedding table of width
  \<open>D\<close> and a tree decoder that keeps the shape \<open>(P, 3, D)\<close>, the pairwise
  combiner looks the embedding up at \<open>P\<close> copies of the configured task id, builds
  for each pair the sequence of the task embedding followed by the two pooled vectors,
  runs the tree decoder on it, and returns the classifier applied to the decoder's
  output at the first position of each pair.
\<close>

theorem C6_pairwise_encoding:
  assumes e_ij: "shape e_ij = [P, 2, D]" "wf_tensor e_ij"
    and emb: "shape (embedding (r2d2 self) \<lparr>shape = [P], elems = replicate P (task_id self)\<rparr>)
                = [P, D]"
             "wf_tensor (embedding (r2d2 self) \<lparr>shape = [P], elems = replicate P (task_id self)\<rparr>)"
    and dec: "\<forall>t. shape t = [P, 3, D] \<and> wf_tensor t \<longrightarrow>
                shape (tree_decoder (r2d2 self) t) = [P, 3, D]
                \<and> wf_tensor (tree_decoder (r2d2 self) t)"
  shows "\<exists>input_embedding mask_hidden.
           shape input_embedding = [P, 3, D] \<and> wf_tensor input_embedding
           \<and> (\<forall>p<P. block input_embedding (3 * D) p =
                 block (embedding (r2d2 self) \<lparr>shape = [P], elems = replicate P (task_id self)\<rparr>) D p
                 @ block e_ij (2 * D) p)
           \<and> shape mask_hidden = [P, D] \<and> wf_tensor mask_hidden
           \<and> (\<forall>p<P. block mask_hidden D p =
                 take D (block (tree_decoder (r2d2 self) input_embedding) (3 * D) p))
           \<and> pairwise_encoding self e_ij = Inr (classifier self mask_hidden)"
proof -
  let ?emb = "embedding (r2d2 self) \<lparr>shape = [P], elems = replicate P (task_id self)\<rparr>"
  let ?g = "\<lambda>p. block ?emb D p @ block e_ij (2 * D) p"
  let ?inp = "\<lparr>shape = [P, 3, D], elems = concat (map ?g [0..<P])\<rparr>"
  let ?out = "tree_decoder (r2d2 self) ?inp"
  let ?h = "\<lambda>p. take D (block ?out (3 * D) p)"
  let ?hid = "\<lparr>shape = [P, D], elems = concat (map ?h [0..<P])\<rparr>"
  have len_emb: "length (elems ?emb) = P * D"
    using emb by (simp add: wf_tensor_def)
  have len_e: "length (elems e_ij) = P * (2 * D)"
    using e_ij by (simp add: wf_tensor_def)
  have len_g: "\<forall>p<P. length (?g p) = 3 * D"
    using length_block [OF len_emb] length_block [OF len_e] by simp
  have wf_inp: "wf_tensor ?inp"
    using length_concat_upt [OF len_g] by (simp add: wf_tensor_def)
  have rows_inp: "\<forall>p<P. block ?inp (3 * D) p = ?g p"
    using block_concat_upt [OF len_g] by (simp add: block_def)
  have out: "shape ?out = [P, 3, D]" "wf_tensor ?out"
    using dec wf_inp by simp_all
  then have len_out: "length (elems ?out) = P * (3 * D)"
    by (simp add: wf_tensor_def)
  have len_h: "\<forall>p<P. length (?h p) = D"
    using length_block [OF len_out] by simp
  have wf_hid: "wf_tensor ?hid"
    using length_concat_upt [OF len_h] by (simp add: wf_tensor_def)
  have rows_hid: "\<forall>p<P. block ?hid D p = ?h p"
    using block_concat_upt [OF len_h] by (simp add: block_def)
  have sz: "shape_at e_ij 0 = Inr P"
    using e_ij by (simp add: shape_at_def)
  have unsq: "unsqueeze ?emb 1 = Inr (?emb\<lparr>shape := [P, 1, D]\<rparr>)"
    using emb by (simp add: unsqueeze_def)
  have cat: "cat_dim1 (?emb\<lparr>shape := [P, 1, D]\<rparr>) e_ij = Inr ?inp"
    using e_ij by (simp add: cat_dim1_def block_def)
  have sel: "select_dim1_0 ?out = Inr ?hid"
    using out(1) by (simp add: select_dim1_0_def)
  have run: "pairwise_encoding self e_ij = Inr (classifier self ?hid)"
    by (simp only: pairwise_encoding_def zeros_fill_def bindE_def Let_def sz unsq cat sel sum.case)
  show ?thesis
    using wf_inp rows_inp wf_hid rows_hid run
    by (intro exI [of _ ?inp] exI [of _ ?hid]) simp
qed

text \<open>
  One pair of pooled vectors, the stand-in embedding of width 2 and the identity as tree decoder.
\<close>

theorem C6_pairwise_encoding_witness:
  "pairwise_encoding (stub_cross_sentence False) stub_pairs =
     Inr \<lparr>shape = [1, 2], elems = [3, 0]\<rparr>
   \<and> (\<exists>mask_hidden. shape mask_hidden = [1, 2] \<and> wf_tensor mask_hidden
         \<and> pairwise_encoding (stub_cross_sentence False) stub_pairs
             = Inr (classifier (stub_cross_sentence False) mask_hidden))"
proof -
  let ?ids = "\<lparr>shape = [1], elems = replicate 1 (task_id (stub_cross_sentence False))\<rparr>"
  have e: "shape stub_pairs = [1, 2, 2]" "wf_tensor stub_pairs"
    by (simp_all add: stub_pairs_def wf_tensor_def)
  have emb: "shape (embedding (r2d2 (stub_cross_sentence False)) ?ids) = [1, 2]"
    "wf_tensor (embedding (r2d2 (stub_cross_sentence False)) ?ids)"
    by (simp_all add: stub_cross_sentence_def stub_r2d2_def wf_tensor_def)
  have dec: "\<forall>t. shape t = [1, 3, 2] \<and> wf_tensor t \<longrightarrow>
               shape (tree_decoder (r2d2 (stub_cross_sentence False)) t) = [1, 3, 2]
               \<and> wf_tensor (tree_decoder (r2d2 (stub_cross_sentence False)) t)"
    by (simp add: stub_cross_sentence_def stub_r2d2_def)
  from C6_pairwise_encoding [OF e emb dec] obtain mask_hidden where
    "shape mask_hidden = [1, 2]" "wf_tensor mask_hidden"
    "pairwise_encoding (stub_cross_sentence False) stub_pairs
       = Inr (classifier (stub_cross_sentence False) mask_hidden)"
    by blast
  moreover have "pairwise_encoding (stub_cross_sentence False) stub_pairs =
     Inr \<lparr>shape = [1, 2], elems = [3, 0]\<rparr>"
    unfolding stub_pairs_def by (rule stub_pairwise_encoding)
  ultimately show ?thesis by blast
qed

text \<open>
  Claim C7. A parsed inference call (no labels, \<^verbatim>\<open>force_encoding=False\<close>) calls the
  parser for merge guidance when the parser is enabled, then the encoder exactly
  once, with no \<^verbatim>\<open>sample_trees\<close> argument and with \<^verbatim>\<open>lm_loss=False\<close>; the
  tables are pooled, the pooled vectors go through the head of the module, and the
  output is the softmax of the logits over the last dimension.
\<close>

theorem C7_parsed_inference:
  "(let args = \<lparr>arg_input_ids = ids, arg_attention_mask = am,
                merge_trajectories =
                  (if disable_parser self then None else Some (parse (parser self) ids am spans)),
                sample_trees = None, recover_tree = True, keep_tensor_cache = True,
                lm_loss = Some False\<rparr>;
        res = r2d2_call (r2d2 self) args
    in Classification_forward ext self ids am n spans None False =
         (bindE (root_pooling (res_tables res) (res_tensor_cache res)) (\<lambda>e_ij.
            Inr (Probs (softmax (classifier self e_ij)))),
          (if disable_parser self then [] else [ParserCall ids am spans]) @ [R2D2Call args]))
   \<and> (flatten_view ids0 = Inr fids \<and> flatten_view am0 = Inr fam \<longrightarrow>
       (let args = \<lparr>arg_input_ids = fids, arg_attention_mask = fam,
                     merge_trajectories =
                       (if disable_parser selfx then None
                        else Some (parse (parser selfx) fids fam spans)),
                     sample_trees = None, recover_tree = True, keep_tensor_cache = True,
                     lm_loss = Some False\<rparr>;
            res = r2d2_call (r2d2 selfx) args
        in CrossSentence_forward ext selfx ids0 am0 n spans None False =
             (bindE (root_pooling (res_tables res) (res_tensor_cache res)) (\<lambda>e_ij.
              bindE (view_pairs e_ij) (\<lambda>pairs.
              bindE (pairwise_encoding selfx pairs) (\<lambda>logits.
                Inr (Probs (softmax logits))))),
              (if disable_parser selfx then [] else [ParserCall fids fam spans])
                @ [R2D2Call args])))"
proof (intro conjI impI)
  show "let args = \<lparr>arg_input_ids = ids, arg_attention_mask = am,
                merge_trajectories =
                  (if disable_parser self then None else Some (parse (parser self) ids am spans)),
                sample_trees = None, recover_tree = True, keep_tensor_cache = True,
                lm_loss = Some False\<rparr>;
        res = r2d2_call (r2d2 self) args
    in Classification_forward ext self ids am n spans None False =
         (bindE (root_pooling (res_tables res) (res_tensor_cache res)) (\<lambda>e_ij.
            Inr (Probs (softmax (classifier self e_ij)))),
          (if disable_parser self then [] else [ParserCall ids am spans]) @ [R2D2Call args])"
    by (simp add: cls_inference_run encoder_args_def guidance_def guidance_events_def)
next
  assume "flatten_view ids0 = Inr fids \<and> flatten_view am0 = Inr fam"
  then have ids: "flatten_view ids0 = Inr fids" and am: "flatten_view am0 = Inr fam"
    by simp_all
  show "let args = \<lparr>arg_input_ids = fids, arg_attention_mask = fam,
                     merge_trajectories =
                       (if disable_parser selfx then None
                        else Some (parse (parser selfx) fids fam spans)),
                     sample_trees = None, recover_tree = True, keep_tensor_cache = True,
                     lm_loss = Some False\<rparr>;
            res = r2d2_call (r2d2 selfx) args
        in CrossSentence_forward ext selfx ids0 am0 n spans None False =
             (bindE (root_pooling (res_tables res) (res_tensor_cache res)) (\<lambda>e_ij.
              bindE (view_pairs e_ij) (\<lambda>pairs.
              bindE (pairwise_encoding selfx pairs) (\<lambda>logits.
                Inr (Probs (softmax logits))))),
              (if disable_parser selfx then [] else [ParserCall fids fam spans])
                @ [R2D2Call args])"
    by (simp add: cross_inference_run [OF ids am] encoder_args_def guidance_def
          guidance_events_def cross_head_def bindE_def split: sum.splits)
qed

text \<open>
  The single-sentence module with its parser enabled, and the cross-sentence module with its parser
  disabled, on the stand-in collaborators.
\<close>

theorem C7_parsed_inference_witness:
  "Classification_forward stub_externals (stub_classification False) stub_input_ids
       stub_attention_mask 0 None None False =
     (Inr (Probs (softmax stub_pooled)),
      [ParserCall stub_input_ids stub_attention_mask None,
       R2D2Call \<lparr>arg_input_ids = stub_input_ids, arg_attention_mask = stub_attention_mask,
                 merge_trajectories = Some stub_empty, sample_trees = None,
                 recover_tree = True, keep_tensor_cache = True, lm_loss = Some False\<rparr>])
   \<and> CrossSentence_forward stub_externals (stub_cross_sentence True) stub_pair_ids
       stub_pair_mask 0 None None False =
     (Inr (Probs (softmax \<lparr>shape = [1, 2], elems = [3, 0]\<rparr>)),
      [R2D2Call \<lparr>arg_input_ids = stub_input_ids, arg_attention_mask = stub_attention_mask,
                 merge_trajectories = None, sample_trees = None,
                 recover_tree = True, keep_tensor_cache = True, lm_loss = Some False\<rparr>])"
proof -
  have head: "bindE (view_pairs stub_pooled) (\<lambda>pairs.
              bindE (pairwise_encoding (stub_cross_sentence True) pairs) (\<lambda>logits.
                Inr (Probs (softmax logits)))) =
              Inr (Probs (softmax \<lparr>shape = [1, 2], elems = [3, 0]\<rparr>))"
    by (simp only: stub_pooled_def stub_view_pairs stub_pairwise_encoding bindE_def sum.case)
  have parse: "parse (parser (stub_classification False)) i m s = stub_empty" for i m s
    by (simp add: stub_classification_def stub_parser_def)
  have cls: "classifier (stub_classification False) t = t" for t
    by (simp add: stub_classification_def)
  show ?thesis
    using C7_parsed_inference [of stub_input_ids stub_attention_mask "stub_classification False"
            None stub_externals 0 stub_pair_ids stub_input_ids stub_pair_mask stub_attention_mask
            "stub_cross_sentence True"]
          stub_flatten_view head
    by (simp add: Let_def stub_selectors stub_root_pooling bindE_def parse cls)
qed



text \<open>
  Claim C10. With labels provided, the value returned by \<^verbatim>\<open>forward\<close>, and the
  calls it makes, do not depend on the argument \<^verbatim>\<open>force_encoding\<close>, in both
  modules: the flag is read on the inference branch only.
\<close>

theorem C10_training_ignores_force_encoding:
  "Classification_forward ext self ids am n spans (Some y) fe =
     Classification_forward ext self ids am n spans (Some y) fe'
   \<and> CrossSentence_forward ext selfx ids0 am0 n spans (Some y) fe =
     CrossSentence_forward ext selfx ids0 am0 n spans (Some y) fe'"
  by (simp add: Classification_forward_def CrossSentence_forward_def)

end
